theory Spec2Isabelle
  imports Complex_Main "HOL-Library.Sublist"
begin

section \<open>Exceptions and results\<close>

text \<open>
  The exceptions that \<^verbatim>\<open>questionnaire/emails.py\<close> raises or lets through. Each one is a
  subclass of Python's \<^verbatim>\<open>Exception\<close>; the four \<^verbatim>\<open>smtplib\<close> classes are the ones
  \<^verbatim>\<open>_send_email\<close> names in its handlers.
\<close>

datatype exn =
    Http404
  | NameError string
  | DoesNotExist
  | MultipleObjectsReturned
  | ValueError string
  | AttributeError string
  | SMTPRecipientsRefused
  | SMTPHeloError
  | SMTPSenderRefused
  | SMTPDataError
  | Exception string

text \<open>\<^verbatim>\<open>str(e)\<close>, as line 152 formats it into the log.\<close>

fun str_exn :: "exn \<Rightarrow> string" where
  "str_exn Http404 = ''''"
| "str_exn (NameError n) = ''name '' @ [CHR 39] @ n @ [CHR 39] @ '' is not defined''"
| "str_exn DoesNotExist = ''matching query does not exist.''"
| "str_exn MultipleObjectsReturned = ''get() returned more than one object''"
| "str_exn (ValueError m) = m"
| "str_exn (AttributeError m) = m"
| "str_exn SMTPRecipientsRefused = ''SMTPRecipientsRefused''"
| "str_exn SMTPHeloError = ''SMTPHeloError''"
| "str_exn SMTPSenderRefused = ''SMTPSenderRefused''"
| "str_exn SMTPDataError = ''SMTPDataError''"
| "str_exn (Exception m) = m"

section \<open>Dates and times\<close>

text \<open>
  A naive \<^verbatim>\<open>datetime.datetime\<close>. The constructor call \<^verbatim>\<open>datetime(y, m, d)\<close> of lines
  60 and 62 checks its fields and raises \<^verbatim>\<open>ValueError\<close> outside the calendar
  (years 1 to 9999).
\<close>

record datetime =
  year :: int
  month :: int
  day :: int
  hour :: int
  minute :: int
  second :: int
  microsecond :: int

definition is_leap :: "int \<Rightarrow> bool" where
  "is_leap y = (y mod 4 = 0 \<and> (y mod 100 \<noteq> 0 \<or> y mod 400 = 0))"

definition days_in_month :: "int \<Rightarrow> int \<Rightarrow> int" where
  "days_in_month y m =
     (if m = 2 then (if is_leap y then 29 else 28)
      else if m = 4 \<or> m = 6 \<or> m = 9 \<or> m = 11 then 30 else 31)"

definition MINYEAR :: int where "MINYEAR = 1"
definition MAXYEAR :: int where "MAXYEAR = 9999"

definition valid_date :: "int \<Rightarrow> int \<Rightarrow> int \<Rightarrow> bool" where
  "valid_date y m d =
     (MINYEAR \<le> y \<and> y \<le> MAXYEAR \<and> 1 \<le> m \<and> m \<le> 12 \<and> 1 \<le> d \<and> d \<le> days_in_month y m)"

definition datetime_ymd :: "int \<Rightarrow> int \<Rightarrow> int \<Rightarrow> exn + datetime" where
  "datetime_ymd y m d =
     (if \<not> (MINYEAR \<le> y \<and> y \<le> MAXYEAR) then Inl (ValueError ''year is out of range'')
      else if \<not> (1 \<le> m \<and> m \<le> 12) then Inl (ValueError ''month must be in 1..12'')
      else if \<not> (1 \<le> d \<and> d \<le> days_in_month y m)
        then Inl (ValueError ''day is out of range for month'')
      else Inr \<lparr>year = y, month = m, day = d, hour = 0, minute = 0, second = 0,
                microsecond = 0\<rparr>)"

text \<open>
  \<^verbatim>\<open>datetime.timetuple()\<close>: the fields \<^verbatim>\<open>time.mktime\<close> reads. The microseconds are
  dropped.
\<close>

record struct_time =
  tm_year :: int
  tm_mon :: int
  tm_mday :: int
  tm_hour :: int
  tm_min :: int
  tm_sec :: int

definition timetuple :: "datetime \<Rightarrow> struct_time" where
  "timetuple t = \<lparr>tm_year = year t, tm_mon = month t, tm_mday = day t, tm_hour = hour t,
                  tm_min = minute t, tm_sec = second t\<rparr>"

text \<open>The order of naive datetimes: field by field, the year first.\<close>

fun lex_le :: "int list \<Rightarrow> int list \<Rightarrow> bool" where
  "lex_le [] ys = True"
| "lex_le (x # xs) [] = False"
| "lex_le (x # xs) (y # ys) = (x < y \<or> (x = y \<and> lex_le xs ys))"

definition datetime_le :: "datetime \<Rightarrow> datetime \<Rightarrow> bool" where
  "datetime_le a b =
     lex_le [year a, month a, day a, hour a, minute a, second a, microsecond a]
            [year b, month b, day b, hour b, minute b, second b, microsecond b]"

section \<open>Strings\<close>

text \<open>\<^verbatim>\<open>str(n)\<close> and \<^verbatim>\<open>"%d" % n\<close> for an integer: its decimal digits.\<close>

fun digits :: "nat \<Rightarrow> string" where
  "digits n = (if n < 10 then [''0123456789'' ! n]
               else digits (n div 10) @ [''0123456789'' ! (n mod 10)])"

declare digits.simps [simp del]

definition str_int :: "int \<Rightarrow> string" where
  "str_int i = (if i < 0 then CHR ''-'' # digits (nat (- i)) else digits (nat i))"

definition startswith :: "string \<Rightarrow> string \<Rightarrow> bool" where
  "startswith s p = (take (length p) s = p)"

text \<open>\<^verbatim>\<open>sep.join(xs)\<close>.\<close>

fun join :: "string \<Rightarrow> string list \<Rightarrow> string" where
  "join sep [] = []"
| "join sep [x] = x"
| "join sep (x # y # ys) = x @ sep @ join sep (y # ys)"

text \<open>
  The rendered email is a Python \<^verbatim>\<open>str\<close>, a sequence of Unicode code points, and
  \<^verbatim>\<open>strip()\<close> of line 83 knows all of Unicode's white space; so the rendered text is a
  list of code points. \<open>code_points\<close> reads an ASCII literal as such a list.
\<close>

type_synonym unicode = "nat list"

definition code_points :: "string \<Rightarrow> unicode" where
  "code_points s = map of_char s"

text \<open>
  \<^verbatim>\<open>a, b = s.split("\n", 1)\<close> of line 82: the text before the first newline and the
  text after it; with no newline the unpacking raises \<^verbatim>\<open>ValueError\<close>.
\<close>

definition split_first_line :: "unicode \<Rightarrow> exn + (unicode \<times> unicode)" where
  "split_first_line s =
     (if 10 \<in> set s
      then Inr (takeWhile (\<lambda>c. c \<noteq> 10) s, tl (dropWhile (\<lambda>c. c \<noteq> 10) s))
      else Inl (ValueError ''not enough values to unpack (expected 2, got 1)''))"

text \<open>
  \<^verbatim>\<open>str.isspace\<close> for one code point: U+0009 to U+000D, U+001C to U+0020, U+0085,
  U+00A0, U+1680, U+2000 to U+200A, U+2028, U+2029, U+202F, U+205F and U+3000.
\<close>

definition isspace :: "nat \<Rightarrow> bool" where
  "isspace c =
     ((9 \<le> c \<and> c \<le> 13) \<or> (28 \<le> c \<and> c \<le> 32) \<or> c = 133 \<or> c = 160 \<or> c = 5760
      \<or> (8192 \<le> c \<and> c \<le> 8202) \<or> c = 8232 \<or> c = 8233 \<or> c = 8239 \<or> c = 8287
      \<or> c = 12288)"

text \<open>\<^verbatim>\<open>s.strip()\<close>: the white space at both ends is dropped.\<close>

definition strip :: "unicode \<Rightarrow> unicode" where
  "strip s = rev (dropWhile isspace (rev (dropWhile isspace s)))"

section \<open>The database\<close>

text \<open>
  The rows of the models that \<^verbatim>\<open>emails.py\<close> reads and writes, with the columns it
  uses. A foreign key is the primary key of the row it points to.
\<close>

record subject =
  subject_pk :: nat
  surname :: string
  givenname :: string
  gender :: string
  email :: string
  language :: string
  state :: string
  formtype :: string
  nextrun :: datetime

record run =
  run_pk :: nat
  runid :: string

record questionnaire =
  questionnaire_pk :: nat
  name :: string

record questionset =
  questionset_pk :: nat
  questionnaire_id :: nat
  sortid :: int

record runinfo =
  runinfo_pk :: nat
  subject_id :: nat
  run_id :: nat
  random_code :: string
  emailcount :: int
  emailsent :: "datetime option"
  lastemailerror :: "string option"
  questionset_id :: "nat option"

record db =
  Subject_objects :: "subject list"
  Run_objects :: "run list"
  RunInfo_objects :: "runinfo list"
  QuestionSet_objects :: "questionset list"
  Questionnaire_objects :: "questionnaire list"

text \<open>An automatically assigned primary key: one more than the largest in the table.\<close>

definition fresh_pk :: "nat list \<Rightarrow> nat" where
  "fresh_pk pks = Suc (fold max pks 0)"

text \<open>\<^verbatim>\<open>Model.objects.get(...)\<close> over the rows that match.\<close>

definition objects_get :: "('a \<Rightarrow> bool) \<Rightarrow> 'a list \<Rightarrow> exn + 'a" where
  "objects_get P rows =
     (case filter P rows of
        [] \<Rightarrow> Inl DoesNotExist
      | [x] \<Rightarrow> Inr x
      | _ \<Rightarrow> Inl MultipleObjectsReturned)"

text \<open>
  \<^verbatim>\<open>obj.save()\<close>: the row with the object's primary key is overwritten with the
  object's fields; when no row has that key, the object is inserted.
\<close>

definition save_runinfo :: "runinfo \<Rightarrow> db \<Rightarrow> db" where
  "save_runinfo r d =
     (if runinfo_pk r \<in> set (map runinfo_pk (RunInfo_objects d))
      then d\<lparr>RunInfo_objects :=
               map (\<lambda>x. if runinfo_pk x = runinfo_pk r then r else x) (RunInfo_objects d)\<rparr>
      else d\<lparr>RunInfo_objects := RunInfo_objects d @ [r]\<rparr>)"

definition save_subject :: "subject \<Rightarrow> db \<Rightarrow> db" where
  "save_subject s d =
     (if subject_pk s \<in> set (map subject_pk (Subject_objects d))
      then d\<lparr>Subject_objects :=
               map (\<lambda>x. if subject_pk x = subject_pk s then s else x) (Subject_objects d)\<rparr>
      else d\<lparr>Subject_objects := Subject_objects d @ [s]\<rparr>)"

text \<open>
  The related objects \<^verbatim>\<open>r.run\<close> and \<^verbatim>\<open>r.subject\<close>, fetched by primary key when the
  attribute is read.
\<close>

definition related_run :: "db \<Rightarrow> runinfo \<Rightarrow> exn + run" where
  "related_run d r =
     (case find (\<lambda>x. run_pk x = run_id r) (Run_objects d) of
        None \<Rightarrow> Inl DoesNotExist
      | Some x \<Rightarrow> Inr x)"

definition related_subject :: "db \<Rightarrow> runinfo \<Rightarrow> exn + subject" where
  "related_subject d r =
     (case find (\<lambda>x. subject_pk x = subject_id r) (Subject_objects d) of
        None \<Rightarrow> Inl DoesNotExist
      | Some x \<Rightarrow> Inr x)"

section \<open>The outside world\<close>

text \<open>
  What one run of the job gets from outside the module: the clock, the platform's
  \<^verbatim>\<open>time.mktime\<close>, the template engine, the mail transport, and the md5 digest over a
  random draw. The members are inputs; nothing is assumed of them.

  \<^item> \<open>hexdigest\<close>: the \<^verbatim>\<open>md5(...).hexdigest()\<close> of line 40 for a subject;
  \<^item> \<open>render\<close>: lines 69 to 80 (language activation, template lookup, rendering), which
    return the rendered text or raise;
  \<^item> \<open>deliver\<close>: lines 84 to 94 (addresses, connection, \<^verbatim>\<open>msg.send()\<close>) for a subject
    line and a body: \<open>None\<close> when the server accepts, or the exception raised;
  \<^item> \<open>sent_at\<close>: \<^verbatim>\<open>datetime.now()\<close> of line 96;
  \<^item> \<open>datetime_now\<close>: \<^verbatim>\<open>datetime.now()\<close> of line 134;
  \<^item> \<open>time_time\<close>: \<^verbatim>\<open>time.time()\<close> of line 138, in seconds;
  \<^item> \<open>mktime\<close>: \<^verbatim>\<open>time.mktime\<close>, local time to whole seconds since the epoch.
\<close>

record world =
  hexdigest :: "subject \<Rightarrow> string"
  render :: "subject \<Rightarrow> runinfo \<Rightarrow> run \<Rightarrow> exn + unicode"
  deliver :: "unicode \<Rightarrow> unicode \<Rightarrow> subject \<Rightarrow> runinfo \<Rightarrow> exn option"
  sent_at :: "runinfo \<Rightarrow> datetime"
  datetime_now :: datetime
  time_time :: real
  mktime :: "struct_time \<Rightarrow> int"

section \<open>The module's global names\<close>

text \<open>
  A global name read inside a function is looked up in the module's namespace when the
  line runs, and an unbound name raises \<^verbatim>\<open>NameError\<close>. \<open>module_globals\<close> lists the
  names that lines 6 to 20 and the four \<^verbatim>\<open>def\<close>s bind. Line 17 imports \<^verbatim>\<open>Subject\<close>,
  \<^verbatim>\<open>QuestionSet\<close>, \<^verbatim>\<open>RunInfo\<close> and \<^verbatim>\<open>Questionnaire\<close> from the models; it does not
  import \<^verbatim>\<open>Run\<close>, which line 52 reads, and Python has no builtin of that name.
\<close>

definition module_globals :: "string list" where
  "module_globals =
     [''random'', ''time'', ''smtplib'', ''datetime'', ''Header'', ''formataddr'',
      ''parseaddr'', ''get_connection'', ''EmailMessage'', ''login_required'', ''loader'',
      ''translation'', ''settings'', ''Http404'', ''HttpResponse'', ''get_object_or_404'',
      ''Subject'', ''QuestionSet'', ''RunInfo'', ''Questionnaire'', ''md5'',
      ''encode_emailaddress'', ''_new_random'', ''_new_runinfo'', ''_send_email'',
      ''send_emails'']"

definition load_global :: "string list \<Rightarrow> string \<Rightarrow> exn + unit" where
  "load_global g n = (if n \<in> set g then Inr () else Inl (NameError n))"

section \<open>Creating the run information\<close>

text \<open>\<^verbatim>\<open>_new_random\<close>: the subject's id, a \<^verbatim>\<open>z\<close>, and six characters of the digest.\<close>

definition new_random :: "world \<Rightarrow> subject \<Rightarrow> string" where
  "new_random w s = str_int (int (subject_pk s)) @ ''z'' @ take 6 (hexdigest w s)"

text \<open>\<^verbatim>\<open>Run.objects.get_or_create(runid=runid)\<close>: the run, whether it was created, and
  the database afterwards.\<close>

definition Run_get_or_create :: "string \<Rightarrow> db \<Rightarrow> (exn + run \<times> bool) \<times> db" where
  "Run_get_or_create rid d =
     (case filter (\<lambda>x. runid x = rid) (Run_objects d) of
        [] \<Rightarrow>
          (let x = \<lparr>run_pk = fresh_pk (map run_pk (Run_objects d)), runid = rid\<rparr>
           in (Inr (x, True), d\<lparr>Run_objects := Run_objects d @ [x]\<rparr>))
      | [x] \<Rightarrow> (Inr (x, False), d)
      | _ \<Rightarrow> (Inl MultipleObjectsReturned, d))"

text \<open>
  Modelled from the spec: the column defaults of the RunInfo model, whose declaration
  (\<^verbatim>\<open>models.py\<close>) is not among the sources. A new row has never been sent
  (\<open>emailcount\<close> 0), has no \<open>emailsent\<close>, no \<open>lastemailerror\<close> and no question set.
\<close>

definition RunInfo_new :: "nat \<Rightarrow> run \<Rightarrow> subject \<Rightarrow> runinfo" where
  "RunInfo_new pk rn s =
     \<lparr>runinfo_pk = pk, subject_id = subject_pk s, run_id = run_pk rn, random_code = [],
      emailcount = 0, emailsent = None, lastemailerror = None, questionset_id = None\<rparr>"

text \<open>\<^verbatim>\<open>RunInfo.objects.get_or_create(run=run, subject=subject)\<close>.\<close>

definition RunInfo_get_or_create ::
  "run \<Rightarrow> subject \<Rightarrow> db \<Rightarrow> (exn + runinfo \<times> bool) \<times> db" where
  "RunInfo_get_or_create rn s d =
     (case filter (\<lambda>x. run_id x = run_pk rn \<and> subject_id x = subject_pk s)
             (RunInfo_objects d) of
        [] \<Rightarrow>
          (let x = RunInfo_new (fresh_pk (map runinfo_pk (RunInfo_objects d))) rn s
           in (Inr (x, True), d\<lparr>RunInfo_objects := RunInfo_objects d @ [x]\<rparr>))
      | [x] \<Rightarrow> (Inr (x, False), d)
      | _ \<Rightarrow> (Inl MultipleObjectsReturned, d))"

text \<open>Lines 59 to 62: the subject's next run, one year on.\<close>

definition next_nextrun :: "datetime \<Rightarrow> exn + datetime" where
  "next_nextrun nr =
     (if month nr = 2 \<and> day nr = 29 then datetime_ymd (year nr + 1) 2 28
      else datetime_ymd (year nr + 1) (month nr) (day nr))"

text \<open>
  \<^verbatim>\<open>_new_runinfo\<close>, in a module namespace \<open>g\<close>. The result is the exception raised or
  the RunInfo returned together with the subject object as the call leaves it, and the
  database as the call leaves it: what was saved before an exception stays saved.
\<close>

definition new_runinfo_in ::
  "string list \<Rightarrow> world \<Rightarrow> subject \<Rightarrow> questionset \<Rightarrow> db \<Rightarrow>
     (exn + runinfo \<times> subject) \<times> db" where
  "new_runinfo_in g w sb qs d =
     (let nr = nextrun sb; rid = str_int (year nr) in
      case load_global g ''Run'' of
        Inl e \<Rightarrow> (Inl e, d)
      | Inr _ \<Rightarrow>
     (case Run_get_or_create rid d of
        (Inl e, d1) \<Rightarrow> (Inl e, d1)
      | (Inr (rn, created), d1) \<Rightarrow>
     (case load_global g ''RunInfo'' of
        Inl e \<Rightarrow> (Inl e, d1)
      | Inr _ \<Rightarrow>
     (case RunInfo_get_or_create rn sb d1 of
        (Inl e, d2) \<Rightarrow> (Inl e, d2)
      | (Inr (r, created), d2) \<Rightarrow>
          (let r1 = (if created then r\<lparr>random_code := new_random w sb, emailcount := 0\<rparr>
                     else r);
               r2 = r1\<lparr>questionset_id := Some (questionset_pk qs)\<rparr>;
               d3 = save_runinfo r2 d2
           in case next_nextrun nr of
                Inl e \<Rightarrow> (Inl e, d3)
              | Inr nr' \<Rightarrow>
                  (let sb' = sb\<lparr>nextrun := nr'\<rparr>
                   in (Inr (r2, sb'), save_subject sb' d3)))))))"

text \<open>\<^verbatim>\<open>_new_runinfo\<close> as the module has it.\<close>

definition new_runinfo ::
  "world \<Rightarrow> subject \<Rightarrow> questionset \<Rightarrow> db \<Rightarrow> (exn + runinfo \<times> subject) \<times> db" where
  "new_runinfo = new_runinfo_in module_globals"

section \<open>Sending one email\<close>

text \<open>The handlers of lines 100 to 107: the status text of a classified failure.\<close>

fun smtp_failure :: "exn \<Rightarrow> string option" where
  "smtp_failure SMTPRecipientsRefused = Some ''SMTP Recipient Refused''"
| "smtp_failure SMTPHeloError = Some ''SMTP Helo Error''"
| "smtp_failure SMTPSenderRefused = Some ''SMTP Sender Refused''"
| "smtp_failure SMTPDataError = Some ''SMTP Data Error''"
| "smtp_failure _ = None"

text \<open>
  \<^verbatim>\<open>_send_email\<close>: the exception that leaves the function, or the returned flag with
  the RunInfo object as the call leaves it; and the database afterwards. The text of
  the message is the world's business; the bookkeeping is the function's.
\<close>

definition send_email :: "world \<Rightarrow> runinfo \<Rightarrow> db \<Rightarrow> (exn + bool \<times> runinfo) \<times> db" where
  "send_email w r d =
     (case related_subject d r of
        Inl e \<Rightarrow> (Inl e, d)
      | Inr sb \<Rightarrow>
     (case related_run d r of
        Inl e \<Rightarrow> (Inl e, d)
      | Inr rn \<Rightarrow>
     (case render w sb r rn of
        Inl e \<Rightarrow> (Inl e, d)
      | Inr text \<Rightarrow>
     (case split_first_line text of
        Inl e \<Rightarrow> (Inl e, d)
      | Inr (emailSubject, body) \<Rightarrow>
     (case deliver w (strip emailSubject) body sb r of
        None \<Rightarrow>
          (let r' = r\<lparr>emailcount := 1 + emailcount r, emailsent := Some (sent_at w r),
                      lastemailerror := Some ''OK, accepted by server''\<rparr>
           in (Inr (True, r'), save_runinfo r' d))
      | Some e \<Rightarrow>
          (case smtp_failure e of
             None \<Rightarrow> (Inl e, d)
           | Some msg \<Rightarrow>
               (let r' = r\<lparr>lastemailerror := Some msg\<rparr>
                in (Inr (False, r'), save_runinfo r' d))))))))"

section \<open>The job\<close>

text \<open>The three log lines of lines 148, 150 and 152.\<close>

definition str_opt :: "string option \<Rightarrow> string" where
  "str_opt x = (case x of None \<Rightarrow> ''None'' | Some s \<Rightarrow> s)"

definition ok_line :: "run \<Rightarrow> subject \<Rightarrow> string" where
  "ok_line rn sb = ''['' @ runid rn @ ''] '' @ surname sb @ '', '' @ givenname sb @ '': OK''"

definition failure_line :: "run \<Rightarrow> subject \<Rightarrow> runinfo \<Rightarrow> string" where
  "failure_line rn sb r =
     ''['' @ runid rn @ ''] '' @ surname sb @ '', '' @ givenname sb @ '': ''
       @ str_opt (lastemailerror r)"

definition exception_line :: "run \<Rightarrow> subject \<Rightarrow> exn \<Rightarrow> string" where
  "exception_line rn sb e =
     ''Exception: ['' @ runid rn @ ''] '' @ surname sb @ '': '' @ str_exn e"

text \<open>
  Line 145, the condition of the \<^verbatim>\<open>if\<close>: \<^verbatim>\<open>r.emailsent.timetuple()\<close> on an unset
  \<^verbatim>\<open>emailsent\<close> raises \<^verbatim>\<open>AttributeError\<close>.
\<close>

definition no_timetuple :: exn where
  "no_timetuple =
     AttributeError
       ([CHR 39] @ ''NoneType'' @ [CHR 39] @ '' object has no attribute '' @ [CHR 39]
          @ ''timetuple'' @ [CHR 39])"

definition due :: "world \<Rightarrow> real \<Rightarrow> runinfo \<Rightarrow> exn + bool" where
  "due w WEEKAGO r =
     (if emailcount r = 0 then Inr True
      else case emailsent r of
             None \<Rightarrow> Inl no_timetuple
           | Some t \<Rightarrow> Inr (real_of_int (mktime w (timetuple t)) < WEEKAGO))"

text \<open>
  Lines 146 to 152, the \<^verbatim>\<open>try\<close> statement for a RunInfo \<open>r\<close> of run \<open>rn\<close>: one call
  of \<^verbatim>\<open>_send_email\<close> and one line appended to the log. The handler of line 151 takes
  every exception of the call; reading \<^verbatim>\<open>r.subject\<close> for the line is outside it.
\<close>

definition try_send ::
  "world \<Rightarrow> run \<Rightarrow> runinfo \<Rightarrow> db \<Rightarrow> string list \<Rightarrow> (exn + string list) \<times> db" where
  "try_send w rn r d outlog =
     (case send_email w r d of
        (Inr (True, r'), d') \<Rightarrow>
          (case related_subject d' r' of
             Inl e \<Rightarrow> (Inl e, d')
           | Inr sb \<Rightarrow> (Inr (outlog @ [ok_line rn sb]), d'))
      | (Inr (False, r'), d') \<Rightarrow>
          (case related_subject d' r' of
             Inl e \<Rightarrow> (Inl e, d')
           | Inr sb \<Rightarrow> (Inr (outlog @ [failure_line rn sb r']), d'))
      | (Inl e, d') \<Rightarrow>
          (case related_subject d' r of
             Inl e' \<Rightarrow> (Inl e', d')
           | Inr sb \<Rightarrow> (Inr (outlog @ [exception_line rn sb e]), d')))"

text \<open>
  Lines 141 to 152, the body of the loop for one RunInfo \<open>r\<close>: the log afterwards or
  the exception that leaves the loop, and the database afterwards.
\<close>

definition loop_body ::
  "world \<Rightarrow> real \<Rightarrow> runinfo \<Rightarrow> db \<Rightarrow> string list \<Rightarrow> (exn + string list) \<times> db" where
  "loop_body w WEEKAGO r d outlog =
     (case related_run d r of
        Inl e \<Rightarrow> (Inl e, d)
      | Inr rn \<Rightarrow>
          if startswith (runid rn) ''test:'' then (Inr outlog, d)
          else if emailcount r = - 1 then (Inr outlog, d)
          else
            (case due w WEEKAGO r of
               Inl e \<Rightarrow> (Inl e, d)
             | Inr False \<Rightarrow> (Inr outlog, d)
             | Inr True \<Rightarrow> try_send w rn r d outlog))"

text \<open>Lines 140 to 152: the loop over the RunInfo objects the query returned.\<close>

fun dispatch ::
  "world \<Rightarrow> real \<Rightarrow> runinfo list \<Rightarrow> db \<Rightarrow> string list \<Rightarrow> (exn + string list) \<times> db" where
  "dispatch w WEEKAGO [] d outlog = (Inr outlog, d)"
| "dispatch w WEEKAGO (r # rs) d outlog =
     (case loop_body w WEEKAGO r d outlog of
        (Inl e, d') \<Rightarrow> (Inl e, d')
      | (Inr outlog', d') \<Rightarrow> dispatch w WEEKAGO rs d' outlog')"

text \<open>Lines 135 and 136: a RunInfo for each viable subject.\<close>

fun create_runinfos ::
  "string list \<Rightarrow> world \<Rightarrow> questionset \<Rightarrow> subject list \<Rightarrow> db \<Rightarrow> (exn + unit) \<times> db" where
  "create_runinfos g w qs [] d = (Inr (), d)"
| "create_runinfos g w qs (s # ss) d =
     (case new_runinfo_in g w s qs d of
        (Inl e, d') \<Rightarrow> (Inl e, d')
      | (Inr _, d') \<Rightarrow> create_runinfos g w qs ss d')"

text \<open>The settings the job reads (\<open>None\<close>: the attribute is not set) and the request.\<close>

record settings =
  EMAILCODE :: "string option"
  QUESTIONNAIRE_DEFAULT :: "string option"

record request =
  GET_code :: "string option"

datatype response = HttpResponse string | Text string

definition falsy :: "string option \<Rightarrow> bool" where
  "falsy q = (q = None \<or> q = Some [])"

text \<open>Line 128: the question sets of the questionnaire named \<open>qn\<close>, by \<open>sortid\<close>.\<close>

definition questionsets_of :: "string \<Rightarrow> db \<Rightarrow> questionset list" where
  "questionsets_of qn d =
     sort_key sortid
       (filter (\<lambda>q. list_ex (\<lambda>n. questionnaire_pk n = questionnaire_id q \<and> name n = qn)
                      (Questionnaire_objects d))
          (QuestionSet_objects d))"

text \<open>Line 134: the active subjects whose next run is due.\<close>

definition viablesubjects :: "world \<Rightarrow> db \<Rightarrow> subject list" where
  "viablesubjects w d =
     filter (\<lambda>s. datetime_le (nextrun s) (datetime_now w) \<and> state s = ''active'')
       (Subject_objects d)"

text \<open>Line 137: the RunInfo rows of email subjects under the questionnaire.\<close>

definition runinfos :: "questionnaire \<Rightarrow> db \<Rightarrow> runinfo list" where
  "runinfos qn d =
     filter (\<lambda>r. list_ex (\<lambda>s. subject_pk s = subject_id r \<and> formtype s = ''email'')
                   (Subject_objects d)
               \<and> list_ex (\<lambda>q. Some (questionset_pk q) = questionset_id r
                                \<and> questionnaire_id q = questionnaire_pk qn)
                   (QuestionSet_objects d))
       (RunInfo_objects d)"

text \<open>
  Lines 121 to 132 of \<^verbatim>\<open>send_emails\<close>, in a module namespace \<open>g\<close>: the check of the
  request's code, the questionnaire and its first question set.
\<close>

definition resolve ::
  "string list \<Rightarrow> settings \<Rightarrow> request option \<Rightarrow> string option \<Rightarrow> db \<Rightarrow>
     exn + questionnaire \<times> questionset" where
  "resolve g st req qname d =
     (if (case req of None \<Rightarrow> False
          | Some rq \<Rightarrow> EMAILCODE st = None \<or> GET_code rq \<noteq> EMAILCODE st)
      then Inl Http404
      else
        let qname1 = (if falsy qname then QUESTIONNAIRE_DEFAULT st else qname) in
        if falsy qname1 then Inl (Exception ''QUESTIONNAIRE_DEFAULT not in settings'')
        else
          let qn = the qname1 in
          case load_global g ''Questionnaire'' of
            Inl e \<Rightarrow> Inl e
          | Inr _ \<Rightarrow>
         (case objects_get (\<lambda>n. name n = qn) (Questionnaire_objects d) of
            Inl e \<Rightarrow> Inl e
          | Inr questionnaire \<Rightarrow>
         (case load_global g ''QuestionSet'' of
            Inl e \<Rightarrow> Inl e
          | Inr _ \<Rightarrow>
         (case questionsets_of qn d of
            [] \<Rightarrow> Inl (Exception (''No questionsets for questionnaire '' @ [CHR 39] @ qn
                          @ [CHR 39] @ '' (in settings.py)''))
          | qs # _ \<Rightarrow> Inr (questionnaire, qs)))))"

text \<open>
  \<^verbatim>\<open>send_emails\<close>, in a module namespace \<open>g\<close>: the response or the exception that
  leaves the job, and the database afterwards.
\<close>

definition send_emails_in ::
  "string list \<Rightarrow> world \<Rightarrow> settings \<Rightarrow> request option \<Rightarrow> string option \<Rightarrow> db \<Rightarrow>
     (exn + response) \<times> db" where
  "send_emails_in g w st req qname d =
     (case resolve g st req qname d of
        Inl e \<Rightarrow> (Inl e, d)
      | Inr (questionnaire, qs) \<Rightarrow>
     (case load_global g ''Subject'' of
        Inl e \<Rightarrow> (Inl e, d)
      | Inr _ \<Rightarrow>
     (case create_runinfos g w qs (viablesubjects w d) d of
        (Inl e, d1) \<Rightarrow> (Inl e, d1)
      | (Inr _, d1) \<Rightarrow>
     (case load_global g ''RunInfo'' of
        Inl e \<Rightarrow> (Inl e, d1)
      | Inr _ \<Rightarrow>
     (case dispatch w (time_time w - 60 * 60 * 24 * 7) (runinfos questionnaire d1) d1 [] of
        (Inl e, d2) \<Rightarrow> (Inl e, d2)
      | (Inr outlog, d2) \<Rightarrow>
          (case req of
             Some _ \<Rightarrow>
               (Inr (HttpResponse (''Sent Questionnaire Emails:'' @ [CHR 10] @ ''  ''
                       @ join ([CHR 10] @ ''  '') outlog)), d2)
           | None \<Rightarrow> (Inr (Text (join [CHR 10] outlog)), d2)))))))"

text \<open>\<^verbatim>\<open>send_emails\<close> as the module has it.\<close>

definition send_emails ::
  "world \<Rightarrow> settings \<Rightarrow> request option \<Rightarrow> string option \<Rightarrow> db \<Rightarrow> (exn + response) \<times> db" where
  "send_emails = send_emails_in module_globals"

text \<open>
  Lines 153 to 156 on their own, as \<open>send_emails_in\<close> has them: the response for a
  log, and the end of the job for an outcome of the loop.
\<close>

definition report :: "request option \<Rightarrow> string list \<Rightarrow> response" where
  "report req outlog =
     (case req of
        Some _ \<Rightarrow>
          HttpResponse (''Sent Questionnaire Emails:'' @ [CHR 10] @ ''  ''
            @ join ([CHR 10] @ ''  '') outlog)
      | None \<Rightarrow> Text (join [CHR 10] outlog))"

definition after_loop ::
  "request option \<Rightarrow> (exn + string list) \<times> db \<Rightarrow> (exn + response) \<times> db" where
  "after_loop req res =
     (case res of
        (Inl e, d2) \<Rightarrow> (Inl e, d2)
      | (Inr outlog, d2) \<Rightarrow> (Inr (report req outlog), d2))"

text \<open>
  \<^verbatim>\<open>datetime.timestamp()\<close> of a naive datetime: the seconds since the epoch of its
  local time, with its microseconds. Line 145 does not call it; the claims about the
  age of \<open>emailsent\<close> are read with it.
\<close>

definition timestamp :: "world \<Rightarrow> datetime \<Rightarrow> real" where
  "timestamp w t = real_of_int (mktime w (timetuple t)) + real_of_int (microsecond t) / 1000000"

section \<open>Example data\<close>

text \<open>
  A small database and a world in which the template renders, the server accepts every
  message, and local time is UTC. The job runs on 2015-11-29 at 07:27:00.
\<close>

definition days_from_civil :: "int \<Rightarrow> int \<Rightarrow> int \<Rightarrow> int" where
  "days_from_civil y m d =
     (let y1 = (if m \<le> 2 then y - 1 else y);
          era = y1 div 400;
          yoe = y1 - era * 400;
          doy = (153 * ((m + 9) mod 12) + 2) div 5 + d - 1;
          doe = yoe * 365 + yoe div 4 - yoe div 100 + doy
      in era * 146097 + doe - 719468)"

definition utc_mktime :: "struct_time \<Rightarrow> int" where
  "utc_mktime t =
     days_from_civil (tm_year t) (tm_mon t) (tm_mday t) * 86400
       + tm_hour t * 3600 + tm_min t * 60 + tm_sec t"

definition at_time :: "int \<Rightarrow> int \<Rightarrow> int \<Rightarrow> int \<Rightarrow> int \<Rightarrow> int \<Rightarrow> datetime" where
  "at_time y m d h mi s =
     \<lparr>year = y, month = m, day = d, hour = h, minute = mi, second = s, microsecond = 0\<rparr>"

definition subject_line :: unicode where
  "subject_line = code_points ''Your questionnaire ''"

definition email_body :: "string \<Rightarrow> unicode" where
  "email_body g = code_points (''Dear '' @ g)"

definition email_text :: "string \<Rightarrow> unicode" where
  "email_text g = subject_line @ [10] @ email_body g"

definition world0 :: world where
  "world0 =
     \<lparr>hexdigest = (\<lambda>s. ''9e107d9d372bb6826bd81d3542a419d6''),
      render = (\<lambda>s r rn. Inr (email_text (givenname s))),
      deliver = (\<lambda>sj body s r. None),
      sent_at = (\<lambda>r. at_time 2015 11 29 7 27 1),
      datetime_now = at_time 2015 11 29 7 27 0,
      time_time = 1448782020,
      mktime = utc_mktime\<rparr>"

definition ann :: subject where
  "ann = \<lparr>subject_pk = 1, surname = ''Smith'', givenname = ''Ann'', gender = ''female'',
          email = ''ann@example.org'', language = ''en'', state = ''active'',
          formtype = ''email'', nextrun = at_time 2016 3 1 0 0 0\<rparr>"

definition bob :: subject where
  "bob = \<lparr>subject_pk = 2, surname = ''Jones'', givenname = ''Bob'', gender = ''male'',
          email = ''bob@example.org'', language = ''en'', state = ''active'',
          formtype = ''email'', nextrun = at_time 2016 6 15 0 0 0\<rparr>"

definition run2015 :: run where
  "run2015 = \<lparr>run_pk = 1, runid = ''2015''\<rparr>"

definition run_test :: run where
  "run_test = \<lparr>run_pk = 2, runid = ''test:2015''\<rparr>"

definition survey :: questionnaire where
  "survey = \<lparr>questionnaire_pk = 1, name = ''yearly-survey''\<rparr>"

definition survey_qs :: questionset where
  "survey_qs = \<lparr>questionset_pk = 1, questionnaire_id = 1, sortid = 0\<rparr>"

definition settings0 :: settings where
  "settings0 = \<lparr>EMAILCODE = None, QUESTIONNAIRE_DEFAULT = Some ''yearly-survey''\<rparr>"

text \<open>A RunInfo row of the survey: its key, subject, run, count and last sending.\<close>

definition row :: "nat \<Rightarrow> subject \<Rightarrow> run \<Rightarrow> int \<Rightarrow> datetime option \<Rightarrow> runinfo" where
  "row pk s rn n t =
     \<lparr>runinfo_pk = pk, subject_id = subject_pk s, run_id = run_pk rn,
      random_code = ''1z9e107d'', emailcount = n, emailsent = t, lastemailerror = None,
      questionset_id = Some 1\<rparr>"

definition db_of :: "runinfo list \<Rightarrow> db" where
  "db_of rows =
     \<lparr>Subject_objects = [ann, bob], Run_objects = [run2015, run_test],
      RunInfo_objects = rows, QuestionSet_objects = [survey_qs],
      Questionnaire_objects = [survey]\<rparr>"

text \<open>
  Rows of Ann Smith and Bob Jones: never sent; suppressed; last sent six, seven and
  eight days before the job; counted as sent with no \<open>emailsent\<close>; and rows of the test
  run.
\<close>

definition ann_new :: runinfo where
  "ann_new = row 1 ann run2015 0 None"

definition bob_new :: runinfo where
  "bob_new = row 2 bob run2015 0 None"

definition ann_suppressed :: runinfo where
  "ann_suppressed = row 1 ann run2015 (- 1) (Some (at_time 2014 1 1 0 0 0))"

definition ann_6days :: runinfo where
  "ann_6days = row 1 ann run2015 1 (Some (at_time 2015 11 23 7 27 0))"

definition ann_7days :: runinfo where
  "ann_7days = row 1 ann run2015 1 (Some (at_time 2015 11 22 7 27 0))"

definition ann_8days :: runinfo where
  "ann_8days = row 1 ann run2015 1 (Some (at_time 2015 11 21 7 27 0))"

definition bob_8days :: runinfo where
  "bob_8days = row 2 bob run2015 1 (Some (at_time 2015 11 21 7 27 0))"

text \<open>
  A row last sent at 07:27:00.75 seven days before, for a job whose \<^verbatim>\<open>time.time()\<close> is
  07:27:00.25: the last sending is 604799.5 seconds old.
\<close>

definition ann_young :: runinfo where
  "ann_young =
     row 1 ann run2015 1 (Some ((at_time 2015 11 22 7 27 0)\<lparr>microsecond := 750000\<rparr>))"

definition world_quarter :: world where
  "world_quarter = world0\<lparr>time_time := 1448782020.25\<rparr>"

definition ann_unsent :: runinfo where
  "ann_unsent = row 1 ann run2015 2 None"

definition ann_test_new :: runinfo where
  "ann_test_new = row 1 ann run_test 0 None"

definition ann_test_8days :: runinfo where
  "ann_test_8days = row 1 ann run_test 1 (Some (at_time 2015 11 21 7 27 0))"

definition ann_test_unsent :: runinfo where
  "ann_test_unsent = row 1 ann run_test 2 None"

text \<open>Worlds in which the server refuses the recipient, and in which the send breaks.\<close>

definition world_refused :: world where
  "world_refused = world0\<lparr>deliver := (\<lambda>sj body s r. Some SMTPRecipientsRefused)\<rparr>"

definition world_boom :: world where
  "world_boom = world0\<lparr>deliver := (\<lambda>sj body s r. Some (Exception ''boom''))\<rparr>"

text \<open>
  Subjects whose next run is due when the job runs: two in 2015, and one on the leap day
  of 2012. \<open>db_due\<close> is the database of the survey with the given subjects, runs and
  RunInfo rows.
\<close>

definition ann_due :: subject where
  "ann_due = ann\<lparr>nextrun := at_time 2015 3 1 0 0 0\<rparr>"

definition bob_due :: subject where
  "bob_due = bob\<lparr>nextrun := at_time 2015 6 15 0 0 0\<rparr>"

definition leap_due :: subject where
  "leap_due = ann\<lparr>subject_pk := 3, surname := ''Day'', givenname := ''Lea'',
                   nextrun := at_time 2012 2 29 0 0 0\<rparr>"

definition db_due :: "subject list \<Rightarrow> run list \<Rightarrow> runinfo list \<Rightarrow> db" where
  "db_due ss rns rows =
     \<lparr>Subject_objects = ss, Run_objects = rns, RunInfo_objects = rows,
      QuestionSet_objects = [survey_qs], Questionnaire_objects = [survey]\<rparr>"

section \<open>Saving and the related objects\<close>

lemma save_runinfo_Subject [simp]: "Subject_objects (save_runinfo r d) = Subject_objects d"
  by (simp add: save_runinfo_def)

lemma save_runinfo_Run [simp]: "Run_objects (save_runinfo r d) = Run_objects d"
  by (simp add: save_runinfo_def)

lemma related_subject_save [simp]:
  "related_subject (save_runinfo x d) r = related_subject d r"
  by (simp add: related_subject_def)

lemma related_run_save [simp]:
  "related_run (save_runinfo x d) r = related_run d r"
  by (simp add: related_run_def)

lemma related_subject_same:
  "subject_id r' = subject_id r \<Longrightarrow> related_subject d r' = related_subject d r"
  by (simp add: related_subject_def)

lemma find_map_replace:
  "runinfo_pk r \<in> set (map runinfo_pk xs) \<Longrightarrow>
     find (\<lambda>x. runinfo_pk x = runinfo_pk r)
       (map (\<lambda>x. if runinfo_pk x = runinfo_pk r then r else x) xs) = Some r"
  by (induction xs) auto

lemma find_append_new:
  "runinfo_pk r \<notin> set (map runinfo_pk xs) \<Longrightarrow>
     find (\<lambda>x. runinfo_pk x = runinfo_pk r) (xs @ [r]) = Some r"
  by (induction xs) auto

lemma find_saved:
  "find (\<lambda>x. runinfo_pk x = runinfo_pk r) (RunInfo_objects (save_runinfo r d)) = Some r"
  by (simp add: save_runinfo_def find_map_replace find_append_new del: set_map)

lemma smtp_failure_Some_iff:
  "smtp_failure e = Some msg \<longleftrightarrow>
     (e = SMTPRecipientsRefused \<and> msg = ''SMTP Recipient Refused'') \<or>
     (e = SMTPHeloError \<and> msg = ''SMTP Helo Error'') \<or>
     (e = SMTPSenderRefused \<and> msg = ''SMTP Sender Refused'') \<or>
     (e = SMTPDataError \<and> msg = ''SMTP Data Error'')"
  by (cases e) auto

text \<open>The three ways a call of \<open>send_email\<close> ends.\<close>

lemma send_email_cases:
  "(\<exists>e. send_email w r d = (Inl e, d))
   \<or> send_email w r d =
       (Inr (True, r\<lparr>emailcount := 1 + emailcount r, emailsent := Some (sent_at w r),
                      lastemailerror := Some ''OK, accepted by server''\<rparr>),
        save_runinfo (r\<lparr>emailcount := 1 + emailcount r, emailsent := Some (sent_at w r),
                      lastemailerror := Some ''OK, accepted by server''\<rparr>) d)
   \<or> (\<exists>e msg. smtp_failure e = Some msg \<and>
        send_email w r d =
          (Inr (False, r\<lparr>lastemailerror := Some msg\<rparr>),
           save_runinfo (r\<lparr>lastemailerror := Some msg\<rparr>) d))"
  by (auto simp: send_email_def Let_def split: sum.splits option.splits prod.splits)

lemma dispatch_append:
  "dispatch w W (xs @ ys) d outlog =
     (case dispatch w W xs d outlog of
        (Inl e, d') \<Rightarrow> (Inl e, d')
      | (Inr outlog', d') \<Rightarrow> dispatch w W ys d' outlog')"
proof (induction xs arbitrary: d outlog)
  case Nil
  show ?case by simp
next
  case (Cons x xs)
  show ?case
  proof (cases "loop_body w W x d outlog")
    case (Pair res d')
    then show ?thesis using Cons.IH [of d'] by (cases res) simp_all
  qed
qed

lemma related_subject_upd [simp]:
  "related_subject d (r\<lparr>lastemailerror := x\<rparr>) = related_subject d r"
  "related_subject d (r\<lparr>emailcount := n\<rparr>) = related_subject d r"
  "related_subject d (r\<lparr>emailsent := t\<rparr>) = related_subject d r"
  by (simp_all add: related_subject_def)

lemma try_send_lines:
  assumes "related_subject d r = Inr sb"
  shows "\<exists>line d'. try_send w rn r d outlog = (Inr (outlog @ [line]), d')
           \<and> (line = ok_line rn sb
              \<or> (\<exists>e msg. smtp_failure e = Some msg
                    \<and> line = failure_line rn sb (r\<lparr>lastemailerror := Some msg\<rparr>))
              \<or> (\<exists>e. line = exception_line rn sb e))"
proof -
  consider (raised) e where "send_email w r d = (Inl e, d)"
    | (accepted) "send_email w r d =
       (Inr (True, r\<lparr>emailcount := 1 + emailcount r, emailsent := Some (sent_at w r),
                      lastemailerror := Some ''OK, accepted by server''\<rparr>),
        save_runinfo (r\<lparr>emailcount := 1 + emailcount r, emailsent := Some (sent_at w r),
                      lastemailerror := Some ''OK, accepted by server''\<rparr>) d)"
    | (refused) e msg where "smtp_failure e = Some msg"
        "send_email w r d =
          (Inr (False, r\<lparr>lastemailerror := Some msg\<rparr>),
           save_runinfo (r\<lparr>lastemailerror := Some msg\<rparr>) d)"
    using send_email_cases [of w r d] by blast
  then show ?thesis
  proof cases
    case raised
    then show ?thesis using assms by (simp add: try_send_def) blast
  next
    case accepted
    then show ?thesis using assms by (simp add: try_send_def)
  next
    case refused
    then show ?thesis using assms by (simp add: try_send_def) blast
  qed
qed

section \<open>Evaluating the examples\<close>

lemma split_at_newline:
  "10 \<notin> set xs \<Longrightarrow> split_first_line (xs @ [10] @ ys) = Inr (xs, ys)"
  by (induction xs) (auto simp: split_first_line_def)

lemma split_email_text: "split_first_line (email_text g) = Inr (subject_line, email_body g)"
proof -
  have "10 \<notin> set subject_line"
    by (simp add: subject_line_def code_points_def)
  then show ?thesis
    unfolding email_text_def by (rule split_at_newline)
qed

lemma strip_subject_line: "strip subject_line = code_points ''Your questionnaire''"
  by (simp add: strip_def subject_line_def code_points_def isspace_def)

lemma strip_unicode_space: "strip [160, 8195, 75, 32, 75, 31, 12288] = [75, 32, 75]"
  by (simp add: strip_def isspace_def)

lemmas example_defs = world0_def ann_def bob_def run2015_def run_test_def survey_def
  survey_qs_def settings0_def row_def db_of_def at_time_def utc_mktime_def days_from_civil_def
  timetuple_def ann_new_def bob_new_def ann_suppressed_def ann_6days_def ann_7days_def
  ann_8days_def ann_unsent_def ann_test_new_def ann_test_8days_def ann_test_unsent_def
  world_refused_def world_boom_def ann_due_def bob_due_def leap_due_def db_due_def
  bob_8days_def ann_young_def world_quarter_def

lemmas job_defs = send_emails_def send_emails_in_def resolve_def falsy_def load_global_def
  module_globals_def objects_get_def questionsets_of_def viablesubjects_def datetime_le_def
  runinfos_def

lemmas model_defs = loop_body_def try_send_def send_email_def due_def related_run_def
  related_subject_def startswith_def split_email_text
  save_runinfo_def ok_line_def failure_line_def exception_line_def str_opt_def Let_def

section \<open>The dispatch loop: which rows are sent to\<close>

text \<open>
  Claim C5. A RunInfo with \<open>emailcount = -1\<close> is never sent to and gets no log line,
  whatever its \<open>emailsent\<close>. The body of the loop leaves the log and the database as
  they are (or stops at line 141, if the row's run does not exist), and the loop goes on
  with the rows that follow. The right-hand sides mention neither the world (no
  rendering, no delivery) nor \<open>emailsent\<close>.
\<close>

theorem suppressed_never_sent:
  assumes "emailcount r = - 1"
  shows "loop_body w W r d outlog =
           (case related_run d r of Inl e \<Rightarrow> (Inl e, d) | Inr rn \<Rightarrow> (Inr outlog, d))
       \<and> dispatch w W (r # rs) d outlog =
           (case related_run d r of
              Inl e \<Rightarrow> (Inl e, d)
            | Inr rn \<Rightarrow> dispatch w W rs d outlog)"
  using assms by (simp add: loop_body_def split: sum.splits)

theorem suppressed_never_sent_witness:
  "emailcount ann_suppressed = - 1
   \<and> loop_body world0 (time_time world0 - 60 * 60 * 24 * 7) ann_suppressed
        (db_of [ann_suppressed]) []
      = (Inr [], db_of [ann_suppressed])
   \<and> dispatch world0 (time_time world0 - 60 * 60 * 24 * 7) [ann_suppressed, bob_new]
        (db_of [ann_suppressed, bob_new]) []
      = dispatch world0 (time_time world0 - 60 * 60 * 24 * 7) [bob_new]
        (db_of [ann_suppressed, bob_new]) []"
  using suppressed_never_sent
      [of ann_suppressed world0 "time_time world0 - 60 * 60 * 24 * 7"
          "db_of [ann_suppressed]" "[]" "[]"]
    suppressed_never_sent
      [of ann_suppressed world0 "time_time world0 - 60 * 60 * 24 * 7"
          "db_of [ann_suppressed, bob_new]" "[]" "[bob_new]"]
  by (simp add: example_defs related_run_def)

text \<open>
  Claim C6, as stated: every RunInfo with \<open>emailcount = 0\<close> that the loop iterates over
  is sent to. It fails for a row of a run whose id starts with \<^verbatim>\<open>test:\<close>: line 141
  skips the row before \<open>emailcount\<close> is read. The row below is among the rows the
  query of line 137 returns, its \<open>emailcount\<close> is 0, and the loop body leaves the log
  empty and the database unchanged.
\<close>

theorem never_sent_test_run_counterexample:
  "emailcount ann_test_new = 0
   \<and> runinfos survey (db_of [ann_test_new]) = [ann_test_new]
   \<and> loop_body world0 (time_time world0 - 60 * 60 * 24 * 7) ann_test_new
        (db_of [ann_test_new]) [] = (Inr [], db_of [ann_test_new])"
  by (simp add: example_defs model_defs runinfos_def)

text \<open>
  Claim C6, amended: every RunInfo with \<open>emailcount = 0\<close> whose run id does not start
  with \<^verbatim>\<open>test:\<close> is sent to. The loop body is the \<^verbatim>\<open>try\<close> statement of lines 146 to
  152 on that row, and it appends exactly one line to the log.
\<close>

theorem never_sent_is_sent:
  assumes "emailcount r = 0"
    and "related_run d r = Inr rn"
    and "\<not> startswith (runid rn) ''test:''"
    and "related_subject d r = Inr sb"
  shows "loop_body w W r d outlog = try_send w rn r d outlog
       \<and> (\<exists>line d'. try_send w rn r d outlog = (Inr (outlog @ [line]), d'))"
  using assms try_send_lines [of d r sb w rn outlog]
  by (auto simp: loop_body_def due_def)

theorem never_sent_is_sent_witness:
  "emailcount ann_new = 0
   \<and> related_run (db_of [ann_new]) ann_new = Inr run2015
   \<and> \<not> startswith (runid run2015) ''test:''
   \<and> related_subject (db_of [ann_new]) ann_new = Inr ann
   \<and> loop_body world0 (time_time world0 - 60 * 60 * 24 * 7) ann_new (db_of [ann_new]) []
       = (Inr [''[2015] Smith, Ann: OK''],
          db_of [ann_new\<lparr>emailcount := 1, emailsent := Some (at_time 2015 11 29 7 27 1),
                          lastemailerror := Some ''OK, accepted by server''\<rparr>])"
  using never_sent_is_sent [of ann_new "db_of [ann_new]" run2015 ann world0
      "time_time world0 - 60 * 60 * 24 * 7" "[]"]
  by (simp add: example_defs model_defs)

text \<open>The job runs the loop with the cutoff of line 138 and ends with lines 153 to 156.\<close>

lemma send_emails_in_loop:
  assumes "resolve g st req qname d = Inr (qn, qs)"
    and "''Subject'' \<in> set g" and "''RunInfo'' \<in> set g"
    and "create_runinfos g w qs (viablesubjects w d) d = (Inr u, d1)"
  shows "send_emails_in g w st req qname d =
           after_loop req (dispatch w (time_time w - 60 * 60 * 24 * 7) (runinfos qn d1) d1 [])"
  using assms
  by (simp add: send_emails_in_def load_global_def after_loop_def report_def
      split: prod.splits sum.splits option.splits)

text \<open>
  Claim C4, as stated: a RunInfo whose \<open>emailcount\<close> is neither 0 nor -1 is emailed
  exactly when its \<open>emailsent\<close> timestamp is more than 604800 seconds older than the
  time the job computed its cutoff from. It fails in two ways. A row of a run whose id
  starts with \<^verbatim>\<open>test:\<close> is skipped at line 141: the first row below was last sent
  eight days before the job, and the job sends nothing. And line 145 compares
  \<^verbatim>\<open>time.mktime\<close> of the \<^verbatim>\<open>timetuple()\<close>, which has no microseconds: the second row
  was last sent 604799.5 seconds before the job's \<^verbatim>\<open>time.time()\<close>, less than seven
  days, and the job sends to it.
\<close>

theorem week_old_counterexample:
  "emailcount ann_test_8days = 1
   \<and> emailsent ann_test_8days = Some (at_time 2015 11 21 7 27 0)
   \<and> time_time world0 - timestamp world0 (at_time 2015 11 21 7 27 0) = 8 * 86400
   \<and> send_emails world0 settings0 None None (db_of [ann_test_8days])
       = (Inr (Text []), db_of [ann_test_8days])
   \<and> emailcount ann_young = 1
   \<and> related_run (db_of [ann_young]) ann_young = Inr run2015
   \<and> emailsent ann_young = Some ((at_time 2015 11 22 7 27 0)\<lparr>microsecond := 750000\<rparr>)
   \<and> time_time world_quarter
        - timestamp world_quarter ((at_time 2015 11 22 7 27 0)\<lparr>microsecond := 750000\<rparr>)
       = 604799.5
   \<and> send_emails world_quarter settings0 None None (db_of [ann_young])
       = (Inr (Text ''[2015] Smith, Ann: OK''),
          db_of [ann_young\<lparr>emailcount := 2, emailsent := Some (at_time 2015 11 29 7 27 1),
                           lastemailerror := Some ''OK, accepted by server''\<rparr>])"
  by (simp add: example_defs model_defs job_defs timestamp_def)

text \<open>
  Claim C4, amended: a RunInfo whose \<open>emailcount\<close> is neither 0 nor -1 and whose run
  id does not start with \<^verbatim>\<open>test:\<close> is emailed exactly when its \<open>emailsent\<close>, with the
  microseconds dropped (\<^verbatim>\<open>time.mktime\<close> of its \<^verbatim>\<open>timetuple()\<close>), is strictly more than
  604800 seconds before the \<^verbatim>\<open>time.time()\<close> of the job. The theorem is about the job:
  \<open>pre\<close> are the rows of the query before \<open>r\<close> and \<open>rs\<close> those after it, and the
  cutoff is the one \<open>send_emails_in\<close> computes. When \<open>emailsent\<close> is old enough the job
  runs the \<^verbatim>\<open>try\<close> statement on \<open>r\<close> and goes on with \<open>rs\<close>; when it is not, the job
  goes on with \<open>rs\<close> with the log and the database as they were; with no \<open>emailsent\<close>
  nothing is sent and the job raises. In the witness a row last sent six days before
  and one last sent exactly seven days before are not sent to, and one last sent eight
  days before is.
\<close>

theorem resent_after_a_week:
  assumes "emailcount r \<noteq> 0" and "emailcount r \<noteq> - 1"
    and "related_run d r = Inr rn"
    and "\<not> startswith (runid rn) ''test:''"
    and "resolve g st req qname d0 = Inr (qn, qs)"
    and "''Subject'' \<in> set g" and "''RunInfo'' \<in> set g"
    and "create_runinfos g w qs (viablesubjects w d0) d0 = (Inr u, d1)"
    and "runinfos qn d1 = pre @ r # rs"
    and "dispatch w (time_time w - 60 * 60 * 24 * 7) pre d1 [] = (Inr outlog, d)"
  shows "send_emails_in g w st req qname d0 =
           after_loop req
             (case emailsent r of
                None \<Rightarrow> (Inl no_timetuple, d)
              | Some t \<Rightarrow>
                  if real_of_int (mktime w (timetuple t)) + 604800 < time_time w
                  then (case try_send w rn r d outlog of
                          (Inl e, d') \<Rightarrow> (Inl e, d')
                        | (Inr outlog', d') \<Rightarrow>
                            dispatch w (time_time w - 604800) rs d' outlog')
                  else dispatch w (time_time w - 604800) rs d outlog)"
proof -
  have body: "loop_body w (time_time w - 604800) r d outlog =
      (case emailsent r of
         None \<Rightarrow> (Inl no_timetuple, d)
       | Some t \<Rightarrow>
           if real_of_int (mktime w (timetuple t)) + 604800 < time_time w
           then try_send w rn r d outlog
           else (Inr outlog, d))"
    using assms(1-4) by (simp add: loop_body_def due_def less_diff_eq split: option.splits)
  have "dispatch w (time_time w - 604800) (runinfos qn d1) d1 [] =
      (case loop_body w (time_time w - 604800) r d outlog of
         (Inl e, d') \<Rightarrow> (Inl e, d')
       | (Inr outlog', d') \<Rightarrow> dispatch w (time_time w - 604800) rs d' outlog')"
    using assms(9,10) by (simp add: dispatch_append)
  then have "dispatch w (time_time w - 60 * 60 * 24 * 7) (runinfos qn d1) d1 [] =
      (case emailsent r of
                None \<Rightarrow> (Inl no_timetuple, d)
              | Some t \<Rightarrow>
                  if real_of_int (mktime w (timetuple t)) + 604800 < time_time w
                  then (case try_send w rn r d outlog of
                          (Inl e, d') \<Rightarrow> (Inl e, d')
                        | (Inr outlog', d') \<Rightarrow>
                            dispatch w (time_time w - 604800) rs d' outlog')
                  else dispatch w (time_time w - 604800) rs d outlog)"
    using body by (simp split: option.splits)
  then show ?thesis
    using send_emails_in_loop [OF assms(5-8)] by simp
qed

theorem resent_after_a_week_witness:
  "runinfos survey (db_of [ann_6days, bob_8days]) = [] @ ann_6days # [bob_8days]
   \<and> runinfos survey (db_of [ann_6days, bob_8days]) = [ann_6days] @ bob_8days # []
   \<and> send_emails world0 settings0 None None (db_of [ann_6days, bob_8days])
       = (Inr (Text ''[2015] Jones, Bob: OK''),
          db_of [ann_6days,
                 bob_8days\<lparr>emailcount := 2, emailsent := Some (at_time 2015 11 29 7 27 1),
                            lastemailerror := Some ''OK, accepted by server''\<rparr>])
   \<and> time_time world0 - timestamp world0 (at_time 2015 11 22 7 27 0) = 604800
   \<and> send_emails world0 settings0 None None (db_of [ann_7days])
       = (Inr (Text []), db_of [ann_7days])"
  using resent_after_a_week [of ann_6days "db_of [ann_6days, bob_8days]" run2015
      module_globals settings0 None None "db_of [ann_6days, bob_8days]" survey survey_qs
      world0 "()" "db_of [ann_6days, bob_8days]" "[]" "[bob_8days]" "[]"]
    resent_after_a_week [of bob_8days "db_of [ann_6days, bob_8days]" run2015
      module_globals settings0 None None "db_of [ann_6days, bob_8days]" survey survey_qs
      world0 "()" "db_of [ann_6days, bob_8days]" "[ann_6days]" "[]" "[]"]
    resent_after_a_week [of ann_7days "db_of [ann_7days]" run2015
      module_globals settings0 None None "db_of [ann_7days]" survey survey_qs
      world0 "()" "db_of [ann_7days]" "[]" "[]" "[]"]
  by (simp add: example_defs model_defs job_defs timestamp_def)

section \<open>The dispatch loop: an unset \<open>emailsent\<close>\<close>

text \<open>An exception that leaves the loop leaves \<open>send_emails\<close>.\<close>

lemma send_emails_in_loop_raises:
  assumes "resolve g st req qname d = Inr (qn, qs)"
    and "''Subject'' \<in> set g" and "''RunInfo'' \<in> set g"
    and "create_runinfos g w qs (viablesubjects w d) d = (Inr u, d1)"
    and "dispatch w (time_time w - 60 * 60 * 24 * 7) (runinfos qn d1) d1 [] = (Inl e, d2)"
  shows "send_emails_in g w st req qname d = (Inl e, d2)"
  using assms by (simp add: send_emails_in_def load_global_def)

text \<open>
  Claim C10, as stated: a RunInfo with a positive \<open>emailcount\<close> and no \<open>emailsent\<close>
  that the loop reaches makes the job raise. It fails for a row of a run whose id starts
  with \<^verbatim>\<open>test:\<close>: line 141 skips the row before line 145 reads \<open>emailsent\<close>, and the
  job goes on to the next row and returns its log.
\<close>

theorem unset_emailsent_test_run_counterexample:
  "0 < emailcount ann_test_unsent \<and> emailsent ann_test_unsent = None
   \<and> runinfos survey (db_of [ann_test_unsent, bob_new]) = [ann_test_unsent, bob_new]
   \<and> fst (send_emails world0 settings0 None None (db_of [ann_test_unsent, bob_new]))
       = Inr (Text ''[2015] Jones, Bob: OK'')"
  by (simp add: example_defs model_defs runinfos_def send_emails_def send_emails_in_def
    resolve_def falsy_def load_global_def module_globals_def objects_get_def questionsets_of_def
    viablesubjects_def datetime_le_def)

text \<open>
  Claim C10, amended: when the loop reaches a RunInfo whose run id does not start with
  \<^verbatim>\<open>test:\<close>, whose \<open>emailcount\<close> is positive and whose \<open>emailsent\<close> is unset, line 145
  raises \<^verbatim>\<open>AttributeError\<close> outside the \<^verbatim>\<open>try\<close>; the exception leaves
  \<open>send_emails\<close>, the rows after it are not processed, and the log collected so far is
  not returned. Here \<open>pre\<close> are the rows before \<open>r\<close> and \<open>rs\<close> those after it.
\<close>

theorem unset_emailsent_aborts_batch:
  assumes "0 < emailcount r" and "emailsent r = None"
    and "related_run d r = Inr rn"
    and "\<not> startswith (runid rn) ''test:''"
    and "resolve g st req qname d0 = Inr (qn, qs)"
    and "''Subject'' \<in> set g" and "''RunInfo'' \<in> set g"
    and "create_runinfos g w qs (viablesubjects w d0) d0 = (Inr u, d1)"
    and "runinfos qn d1 = pre @ r # rs"
    and "dispatch w (time_time w - 60 * 60 * 24 * 7) pre d1 [] = (Inr outlog, d)"
  shows "loop_body w (time_time w - 60 * 60 * 24 * 7) r d outlog = (Inl no_timetuple, d)
       \<and> send_emails_in g w st req qname d0 = (Inl no_timetuple, d)"
proof -
  have body: "loop_body w (time_time w - 60 * 60 * 24 * 7) r d outlog = (Inl no_timetuple, d)"
    using assms(1-4) by (simp add: loop_body_def due_def)
  have "dispatch w (time_time w - 60 * 60 * 24 * 7) (runinfos qn d1) d1 []
          = (Inl no_timetuple, d)"
    using assms(9,10) body by (simp add: dispatch_append)
  then show ?thesis
    using body send_emails_in_loop_raises [OF assms(5-8)] by simp
qed

theorem unset_emailsent_aborts_batch_witness:
  "0 < emailcount ann_unsent \<and> emailsent ann_unsent = None
   \<and> related_run (db_of [ann_unsent, bob_new]) ann_unsent = Inr run2015
   \<and> \<not> startswith (runid run2015) ''test:''
   \<and> runinfos survey (db_of [ann_unsent, bob_new]) = [] @ ann_unsent # [bob_new]
   \<and> send_emails world0 settings0 None None (db_of [ann_unsent, bob_new])
       = (Inl no_timetuple, db_of [ann_unsent, bob_new])"
  using unset_emailsent_aborts_batch [of ann_unsent "db_of [ann_unsent, bob_new]" run2015
      module_globals settings0 None None "db_of [ann_unsent, bob_new]" survey survey_qs world0
      "()" "db_of [ann_unsent, bob_new]" "[]" "[bob_new]" "[]"]
  by (simp add: example_defs model_defs runinfos_def send_emails_def
    resolve_def falsy_def load_global_def module_globals_def objects_get_def questionsets_of_def
    viablesubjects_def datetime_le_def)

section \<open>Sending one email: the bookkeeping\<close>

text \<open>
  Claim C7. When the send fails with one of the four classified SMTP conditions,
  \<open>send_email\<close> sets \<open>lastemailerror\<close> to the matching text, saves the RunInfo and
  returns \<open>False\<close>; \<open>emailcount\<close> and \<open>emailsent\<close> are as before, in the object and in
  the saved row. For a row the loop sends to, the loop body appends the failure line
  and returns; the loop over that row alone ends with that line, and with a next row
  \<open>r2\<close> the loop runs its body on \<open>r2\<close>, from the saved database and the longer log,
  and then the rows after it. In the witness both recipients are refused and both get
  their line, in the loop and in the job's response.
\<close>

theorem classified_failure_recorded:
  assumes "related_subject d r = Inr sb"
    and "related_run d r = Inr rn"
    and "render w sb r rn = Inr text"
    and "split_first_line text = Inr (sj, body)"
    and "deliver w (strip sj) body sb r = Some e"
    and "(e, msg) \<in> {(SMTPRecipientsRefused, ''SMTP Recipient Refused''),
                      (SMTPHeloError, ''SMTP Helo Error''),
                      (SMTPSenderRefused, ''SMTP Sender Refused''),
                      (SMTPDataError, ''SMTP Data Error'')}"
  shows "\<exists>r' d'. send_email w r d = (Inr (False, r'), d')
           \<and> r' = r\<lparr>lastemailerror := Some msg\<rparr>
           \<and> emailcount r' = emailcount r \<and> emailsent r' = emailsent r
           \<and> d' = save_runinfo r' d
           \<and> find (\<lambda>x. runinfo_pk x = runinfo_pk r) (RunInfo_objects d') = Some r'
           \<and> (\<not> startswith (runid rn) ''test:'' \<and> emailcount r \<noteq> - 1
                 \<and> due w W r = Inr True \<longrightarrow>
               loop_body w W r d outlog =
                 (Inr (outlog @ [''['' @ runid rn @ ''] '' @ surname sb @ '', ''
                                   @ givenname sb @ '': '' @ msg]), d')
               \<and> dispatch w W [r] d outlog =
                 (Inr (outlog @ [''['' @ runid rn @ ''] '' @ surname sb @ '', ''
                                   @ givenname sb @ '': '' @ msg]), d')
               \<and> dispatch w W (r # r2 # rs) d outlog =
                 (case loop_body w W r2 d'
                         (outlog @ [''['' @ runid rn @ ''] '' @ surname sb @ '', ''
                                      @ givenname sb @ '': '' @ msg]) of
                    (Inl e2, d2) \<Rightarrow> (Inl e2, d2)
                  | (Inr outlog2, d2) \<Rightarrow> dispatch w W rs d2 outlog2)
               \<and> dispatch w W (r # rs) d outlog =
                 dispatch w W rs d' (outlog @ [failure_line rn sb r']))"
proof -
  have f: "smtp_failure e = Some msg"
    using assms(6) by (auto simp: smtp_failure_Some_iff)
  have s: "send_email w r d =
      (Inr (False, r\<lparr>lastemailerror := Some msg\<rparr>),
       save_runinfo (r\<lparr>lastemailerror := Some msg\<rparr>) d)"
    using assms(1-5) f by (simp add: send_email_def Let_def)
  have p: "find (\<lambda>x. runinfo_pk x = runinfo_pk r)
      (RunInfo_objects (save_runinfo (r\<lparr>lastemailerror := Some msg\<rparr>) d))
      = Some (r\<lparr>lastemailerror := Some msg\<rparr>)"
    using find_saved [of "r\<lparr>lastemailerror := Some msg\<rparr>" d] by simp
  have l: "failure_line rn sb (r\<lparr>lastemailerror := Some msg\<rparr>) =
      ''['' @ runid rn @ ''] '' @ surname sb @ '', '' @ givenname sb @ '': '' @ msg"
    by (simp add: failure_line_def str_opt_def)
  show ?thesis
    using s p l assms(1,2) by (simp add: loop_body_def try_send_def)
qed

theorem classified_failure_recorded_witness:
  "send_email world_refused ann_8days (db_of [ann_8days, bob_new])
     = (Inr (False, ann_8days\<lparr>lastemailerror := Some ''SMTP Recipient Refused''\<rparr>),
        db_of [ann_8days\<lparr>lastemailerror := Some ''SMTP Recipient Refused''\<rparr>, bob_new])
   \<and> emailcount ann_8days = 1
   \<and> emailsent ann_8days = Some (at_time 2015 11 21 7 27 0)
   \<and> dispatch world_refused (time_time world_refused - 60 * 60 * 24 * 7) [ann_8days, bob_new]
        (db_of [ann_8days, bob_new]) []
     = (Inr [''[2015] Smith, Ann: SMTP Recipient Refused'',
             ''[2015] Jones, Bob: SMTP Recipient Refused''],
        db_of [ann_8days\<lparr>lastemailerror := Some ''SMTP Recipient Refused''\<rparr>,
               bob_new\<lparr>lastemailerror := Some ''SMTP Recipient Refused''\<rparr>])
   \<and> send_emails world_refused settings0 None None (db_of [ann_8days, bob_new])
     = (Inr (Text (''[2015] Smith, Ann: SMTP Recipient Refused'' @ [CHR 10]
                    @ ''[2015] Jones, Bob: SMTP Recipient Refused'')),
        db_of [ann_8days\<lparr>lastemailerror := Some ''SMTP Recipient Refused''\<rparr>,
               bob_new\<lparr>lastemailerror := Some ''SMTP Recipient Refused''\<rparr>])"
  using classified_failure_recorded [of "db_of [ann_8days, bob_new]" ann_8days ann run2015
      world_refused "email_text ''Ann''" subject_line "email_body ''Ann''"
      SMTPRecipientsRefused "''SMTP Recipient Refused''"
      "time_time world_refused - 60 * 60 * 24 * 7" "[]" bob_new "[]"]
  by (simp add: example_defs model_defs job_defs)

text \<open>
  Claim C8. When the server accepts the message, \<open>send_email\<close> adds 1 to
  \<open>emailcount\<close>, sets \<open>emailsent\<close> to the current time and \<open>lastemailerror\<close> to
  \<^verbatim>\<open>OK, accepted by server\<close>, saves the RunInfo and returns \<open>True\<close>; the \<^verbatim>\<open>try\<close>
  statement of the loop then appends the line ending in \<^verbatim>\<open>OK\<close>.
\<close>

theorem accepted_recorded:
  assumes "related_subject d r = Inr sb"
    and "related_run d r = Inr rn"
    and "render w sb r rn = Inr text"
    and "split_first_line text = Inr (sj, body)"
    and "deliver w (strip sj) body sb r = None"
  shows "\<exists>r' d'. send_email w r d = (Inr (True, r'), d')
           \<and> emailcount r' = emailcount r + 1
           \<and> emailsent r' = Some (sent_at w r)
           \<and> lastemailerror r' = Some ''OK, accepted by server''
           \<and> d' = save_runinfo r' d
           \<and> find (\<lambda>x. runinfo_pk x = runinfo_pk r) (RunInfo_objects d') = Some r'
           \<and> try_send w rn r d outlog =
               (Inr (outlog @ [''['' @ runid rn @ ''] '' @ surname sb @ '', '' @ givenname sb
                                 @ '': OK'']), d')"
proof -
  let ?r = "r\<lparr>emailcount := 1 + emailcount r, emailsent := Some (sent_at w r),
               lastemailerror := Some ''OK, accepted by server''\<rparr>"
  have s: "send_email w r d = (Inr (True, ?r), save_runinfo ?r d)"
    using assms by (simp add: send_email_def Let_def)
  have p: "find (\<lambda>x. runinfo_pk x = runinfo_pk r) (RunInfo_objects (save_runinfo ?r d))
      = Some ?r"
    using find_saved [of ?r d] by simp
  show ?thesis
    using s p assms(1) by (simp add: try_send_def ok_line_def)
qed

theorem accepted_recorded_witness:
  "send_email world0 ann_8days (db_of [ann_8days])
     = (Inr (True, ann_8days\<lparr>emailcount := 2, emailsent := Some (at_time 2015 11 29 7 27 1),
                              lastemailerror := Some ''OK, accepted by server''\<rparr>),
        db_of [ann_8days\<lparr>emailcount := 2, emailsent := Some (at_time 2015 11 29 7 27 1),
                          lastemailerror := Some ''OK, accepted by server''\<rparr>])
   \<and> try_send world0 run2015 ann_8days (db_of [ann_8days]) []
     = (Inr [''[2015] Smith, Ann: OK''],
        db_of [ann_8days\<lparr>emailcount := 2, emailsent := Some (at_time 2015 11 29 7 27 1),
                          lastemailerror := Some ''OK, accepted by server''\<rparr>])"
  using accepted_recorded [of "db_of [ann_8days]" ann_8days ann run2015 world0
      "email_text ''Ann''"
      subject_line "email_body ''Ann''" "[]"]
  by (simp add: example_defs model_defs)

section \<open>The dispatch loop: one failure does not stop the batch\<close>

text \<open>
  Claim C9, as stated: every attempt is recorded as one log line holding the run id, the
  surname, the given name and the outcome. It fails for an exception other than the four
  classified ones: the line of line 152 holds the word \<^verbatim>\<open>Exception\<close>, the run id, the
  surname and the message, and not the given name. Below, the send to Ann Smith breaks
  with the message \<^verbatim>\<open>boom\<close>, and \<^verbatim>\<open>Ann\<close> does not occur in the line.
\<close>

theorem exception_line_counterexample:
  "due world_boom (time_time world_boom - 60 * 60 * 24 * 7) ann_new = Inr True
   \<and> related_subject (db_of [ann_new]) ann_new = Inr ann
   \<and> givenname ann = ''Ann''
   \<and> fst (send_email world_boom ann_new (db_of [ann_new])) = Inl (Exception ''boom'')
   \<and> loop_body world_boom (time_time world_boom - 60 * 60 * 24 * 7) ann_new
        (db_of [ann_new]) []
       = (Inr [''Exception: [2015] Smith: boom''], db_of [ann_new])
   \<and> \<not> sublist ''Ann'' ''Exception: [2015] Smith: boom''"
  by (simp add: example_defs model_defs sublist_Cons_right)

text \<open>
  Claim C9, amended: for every row the loop sends to, whatever the template engine and
  the mail transport do, the loop body appends exactly one line and the loop goes on
  with the rows that follow. The line holds the run id, the surname, the given name and
  \<^verbatim>\<open>OK\<close> or the classified failure reason; or, for any other exception of the call,
  \<^verbatim>\<open>Exception:\<close> with the run id, the surname and the exception's message, without the
  given name. Whenever the call raises, the line is that exception line.
\<close>

theorem send_failures_isolated:
  assumes "related_run d r = Inr rn"
    and "\<not> startswith (runid rn) ''test:''"
    and "emailcount r \<noteq> - 1"
    and "due w W r = Inr True"
    and "related_subject d r = Inr sb"
  shows "\<exists>line d'.
           loop_body w W r d outlog = (Inr (outlog @ [line]), d')
         \<and> dispatch w W (r # rs) d outlog = dispatch w W rs d' (outlog @ [line])
         \<and> (line = ''['' @ runid rn @ ''] '' @ surname sb @ '', '' @ givenname sb @ '': OK''
            \<or> (\<exists>msg \<in> {''SMTP Recipient Refused'', ''SMTP Helo Error'',
                         ''SMTP Sender Refused'', ''SMTP Data Error''}.
                  line = ''['' @ runid rn @ ''] '' @ surname sb @ '', '' @ givenname sb
                           @ '': '' @ msg)
            \<or> (\<exists>e. fst (send_email w r d) = Inl e
                  \<and> line = ''Exception: ['' @ runid rn @ ''] '' @ surname sb @ '': ''
                             @ str_exn e))
         \<and> (\<forall>e. fst (send_email w r d) = Inl e \<longrightarrow>
               line = ''Exception: ['' @ runid rn @ ''] '' @ surname sb @ '': '' @ str_exn e)"
proof -
  have body: "loop_body w W r d outlog = try_send w rn r d outlog"
    using assms(1-4) by (simp add: loop_body_def)
  consider (raised) e where "send_email w r d = (Inl e, d)"
    | (accepted) "send_email w r d =
       (Inr (True, r\<lparr>emailcount := 1 + emailcount r, emailsent := Some (sent_at w r),
                      lastemailerror := Some ''OK, accepted by server''\<rparr>),
        save_runinfo (r\<lparr>emailcount := 1 + emailcount r, emailsent := Some (sent_at w r),
                      lastemailerror := Some ''OK, accepted by server''\<rparr>) d)"
    | (refused) e msg where "smtp_failure e = Some msg"
        "send_email w r d =
          (Inr (False, r\<lparr>lastemailerror := Some msg\<rparr>),
           save_runinfo (r\<lparr>lastemailerror := Some msg\<rparr>) d)"
    using send_email_cases [of w r d] by blast
  then show ?thesis
  proof cases
    case raised
    then have "try_send w rn r d outlog = (Inr (outlog @ [exception_line rn sb e]), d)"
      using assms(5) by (simp add: try_send_def)
    then show ?thesis
      using body raised by (simp add: exception_line_def)
  next
    case accepted
    then have "try_send w rn r d outlog =
        (Inr (outlog @ [ok_line rn sb]),
         save_runinfo (r\<lparr>emailcount := 1 + emailcount r, emailsent := Some (sent_at w r),
                      lastemailerror := Some ''OK, accepted by server''\<rparr>) d)"
      using assms(5) by (simp add: try_send_def)
    then show ?thesis
      using body accepted by (simp add: ok_line_def)
  next
    case refused
    then have t: "try_send w rn r d outlog =
        (Inr (outlog @ [failure_line rn sb (r\<lparr>lastemailerror := Some msg\<rparr>)]),
         save_runinfo (r\<lparr>lastemailerror := Some msg\<rparr>) d)"
      using assms(5) by (simp add: try_send_def)
    have "msg \<in> {''SMTP Recipient Refused'', ''SMTP Helo Error'',
                  ''SMTP Sender Refused'', ''SMTP Data Error''}"
      using refused(1) by (auto simp: smtp_failure_Some_iff)
    then show ?thesis
      using body t refused(2) by (simp add: failure_line_def str_opt_def)
  qed
qed

theorem send_failures_isolated_witness:
  "loop_body world_boom (time_time world_boom - 60 * 60 * 24 * 7) ann_new
        (db_of [ann_new, bob_new]) []
     = (Inr [''Exception: [2015] Smith: boom''], db_of [ann_new, bob_new])
   \<and> dispatch world_boom (time_time world_boom - 60 * 60 * 24 * 7) [ann_new, bob_new]
        (db_of [ann_new, bob_new]) []
     = (Inr [''Exception: [2015] Smith: boom'', ''Exception: [2015] Jones: boom''],
        db_of [ann_new, bob_new])"
  using send_failures_isolated [of "db_of [ann_new, bob_new]" ann_new run2015 world_boom
      "time_time world_boom - 60 * 60 * 24 * 7" ann "[]" "[bob_new]"]
  by (simp add: example_defs model_defs)

section \<open>Creating the run information: the code once \<open>Run\<close> is bound\<close>

text \<open>
  The lemmas of this section are about \<open>new_runinfo_in g\<close> for a namespace \<open>g\<close> that
  binds \<^verbatim>\<open>Run\<close> and \<^verbatim>\<open>RunInfo\<close>: what lines 50 to 64 do once line 52 finds its
  name. They do not hold of the module as it is, whose namespace has no \<^verbatim>\<open>Run\<close>.
\<close>

lemma fresh_pk_new: "fresh_pk pks \<notin> set pks"
proof
  assume "fresh_pk pks \<in> set pks"
  then have "fresh_pk pks \<le> Max (set (0 # pks))" by simp
  then show False by (simp add: fresh_pk_def Max.set_eq_fold [symmetric] del: set_simps)
qed

text \<open>\<open>Run_get_or_create\<close>: one run per key.\<close>

lemma Run_get_or_create_other_tables [simp]:
  "RunInfo_objects (snd (Run_get_or_create rid d)) = RunInfo_objects d"
  "Subject_objects (snd (Run_get_or_create rid d)) = Subject_objects d"
  by (simp_all add: Run_get_or_create_def Let_def split: list.splits)

lemma Run_get_or_create_unique:
  assumes "Run_get_or_create rid d = (Inr (rn, created), d1)"
  shows "filter (\<lambda>x. runid x = rid) (Run_objects d1) = [rn]"
  using assms by (auto simp: Run_get_or_create_def Let_def split: list.splits)

lemma Run_get_or_create_found:
  assumes "filter (\<lambda>x. runid x = rid) (Run_objects d) = [rn]"
  shows "Run_get_or_create rid d = (Inr (rn, False), d)"
  using assms by (simp add: Run_get_or_create_def)

lemma Run_get_or_create_count:
  "length (filter (\<lambda>x. runid x = k) (Run_objects (snd (Run_get_or_create rid d))))
     \<le> max 1 (length (filter (\<lambda>x. runid x = k) (Run_objects d)))"
  by (auto simp: Run_get_or_create_def Let_def split: list.splits)

lemma Run_get_or_create_existing:
  assumes "filter (\<lambda>x. runid x = rid) (Run_objects d) \<noteq> []"
  shows "snd (Run_get_or_create rid d) = d"
  using assms by (simp add: Run_get_or_create_def split: list.splits)

text \<open>\<open>RunInfo_get_or_create\<close>: the row of the subject and the run.\<close>

lemma RunInfo_get_or_create_Run [simp]:
  "Run_objects (snd (RunInfo_get_or_create rn sb d)) = Run_objects d"
  "Subject_objects (snd (RunInfo_get_or_create rn sb d)) = Subject_objects d"
  by (simp_all add: RunInfo_get_or_create_def Let_def split: list.splits)

lemma filter_singletonD:
  assumes "filter P xs = [x]"
  shows "P x \<and> x \<in> set xs"
proof -
  have "x \<in> set (filter P xs)" using assms by simp
  then show ?thesis by simp
qed

lemma RunInfo_get_or_create_keys:
  assumes "RunInfo_get_or_create rn sb d = (Inr (r, created), d2)"
  shows "run_id r = run_pk rn \<and> subject_id r = subject_pk sb \<and> r \<in> set (RunInfo_objects d2)"
proof (cases "filter (\<lambda>x. run_id x = run_pk rn \<and> subject_id x = subject_pk sb)
                (RunInfo_objects d)")
  case Nil
  then show ?thesis
    using assms by (auto simp: RunInfo_get_or_create_def Let_def RunInfo_new_def)
next
  case (Cons x xs)
  then have "xs = []" and "r = x" and "d2 = d"
    using assms by (auto simp: RunInfo_get_or_create_def split: list.splits)
  then show ?thesis
    using filter_singletonD [of "\<lambda>x. run_id x = run_pk rn \<and> subject_id x = subject_pk sb"
        "RunInfo_objects d" x] Cons by simp
qed

lemma RunInfo_get_or_create_found:
  assumes "filter (\<lambda>x. run_id x = run_pk rn \<and> subject_id x = subject_pk sb)
             (RunInfo_objects d) = [r0]"
  shows "RunInfo_get_or_create rn sb d = (Inr (r0, False), d)"
  using assms by (simp add: RunInfo_get_or_create_def)

lemma save_subject_tables [simp]:
  "Run_objects (save_subject s d) = Run_objects d"
  "RunInfo_objects (save_subject s d) = RunInfo_objects d"
  by (simp_all add: save_subject_def)


lemma days_in_month_next_year:
  assumes "1 \<le> m" "m \<le> 12" "1 \<le> d" "d \<le> days_in_month y m" "\<not> (m = 2 \<and> d = 29)"
  shows "d \<le> days_in_month (y + 1) m"
  using assms by (auto simp: days_in_month_def split: if_splits)

lemma next_nextrun_valid:
  assumes "valid_date (year nr) (month nr) (day nr)" and "year nr < MAXYEAR"
  shows "next_nextrun nr =
           Inr \<lparr>year = year nr + 1, month = month nr,
                day = (if month nr = 2 \<and> day nr = 29 then 28 else day nr),
                hour = 0, minute = 0, second = 0, microsecond = 0\<rparr>"
proof (cases "month nr = 2 \<and> day nr = 29")
  case True
  then show ?thesis
    using assms
    by (simp add: next_nextrun_def datetime_ymd_def valid_date_def MINYEAR_def MAXYEAR_def
        days_in_month_def)
next
  case False
  then have "day nr \<le> days_in_month (year nr + 1) (month nr)"
    using assms(1) days_in_month_next_year [of "month nr" "day nr" "year nr"]
    by (simp add: valid_date_def)
  then show ?thesis
    using assms False
    by (auto simp: next_nextrun_def datetime_ymd_def valid_date_def MINYEAR_def MAXYEAR_def)
qed

lemma next_nextrun_last_year:
  "year nr = MAXYEAR \<Longrightarrow> next_nextrun nr = Inl (ValueError ''year is out of range'')"
  by (simp add: next_nextrun_def datetime_ymd_def MINYEAR_def MAXYEAR_def)

lemma new_runinfo_unbound:
  "''Run'' \<notin> set g \<Longrightarrow> new_runinfo_in g w sb qs d = (Inl (NameError ''Run''), d)"
  by (simp add: new_runinfo_in_def load_global_def Let_def)

lemma Run_unbound: "''Run'' \<notin> set module_globals"
  by (simp add: module_globals_def)

text \<open>What \<open>new_runinfo_in\<close> returns in a namespace that binds both names.\<close>

lemma new_runinfo_in_returns:
  assumes "''Run'' \<in> set g" and "''RunInfo'' \<in> set g"
    and "new_runinfo_in g w sb qs d = (Inr (r2, sb'), d')"
  obtains rn c d1 r created d2 nr' where
    "Run_get_or_create (str_int (year (nextrun sb))) d = (Inr (rn, c), d1)"
    "RunInfo_get_or_create rn sb d1 = (Inr (r, created), d2)"
    "r2 = (if created then r\<lparr>random_code := new_random w sb, emailcount := 0\<rparr> else r)
            \<lparr>questionset_id := Some (questionset_pk qs)\<rparr>"
    "next_nextrun (nextrun sb) = Inr nr'"
    "sb' = sb\<lparr>nextrun := nr'\<rparr>"
    "d' = save_subject sb' (save_runinfo r2 d2)"
  using assms
  by (auto simp: new_runinfo_in_def load_global_def Let_def
      split: prod.splits sum.splits if_splits)

lemma new_runinfo_in_Run_objects:
  assumes "''Run'' \<in> set g" and "''RunInfo'' \<in> set g"
  shows "Run_objects (snd (new_runinfo_in g w sb qs d))
           = Run_objects (snd (Run_get_or_create (str_int (year (nextrun sb))) d))"
proof -
  have *: "\<And>rn d1. Run_objects (snd (RunInfo_get_or_create rn sb d1)) = Run_objects d1"
    by simp
  show ?thesis
    using assms
    apply (simp add: new_runinfo_in_def load_global_def Let_def
        split: prod.splits sum.splits)
    apply (intro allI impI conjI)
    using * apply (metis snd_conv)+
    done
qed


lemma new_runinfo_in_no_second_run:
  assumes "''Run'' \<in> set g" and "''RunInfo'' \<in> set g"
  shows "length (filter (\<lambda>x. runid x = k) (Run_objects (snd (new_runinfo_in g w sb qs d))))
           \<le> max 1 (length (filter (\<lambda>x. runid x = k) (Run_objects d)))"
  using assms Run_get_or_create_count [of k "str_int (year (nextrun sb))" d]
  by (simp add: new_runinfo_in_Run_objects)

lemma new_runinfo_in_run:
  assumes "''Run'' \<in> set g" and "''RunInfo'' \<in> set g"
    and "new_runinfo_in g w sb qs d = (Inr (r, sb'), d')"
  shows "\<exists>rn. filter (\<lambda>x. runid x = str_int (year (nextrun sb))) (Run_objects d') = [rn]
           \<and> run_id r = run_pk rn"
proof -
  obtain rn c d1 r0 created d2 where
    a: "Run_get_or_create (str_int (year (nextrun sb))) d = (Inr (rn, c), d1)"
    and b: "RunInfo_get_or_create rn sb d1 = (Inr (r0, created), d2)"
    and c: "r = (if created then r0\<lparr>random_code := new_random w sb, emailcount := 0\<rparr> else r0)
            \<lparr>questionset_id := Some (questionset_pk qs)\<rparr>"
    using new_runinfo_in_returns [OF assms] by metis
  have "Run_objects d' = Run_objects d1"
    using new_runinfo_in_Run_objects [OF assms(1,2), of w sb qs d] assms(3) a by simp
  moreover have "filter (\<lambda>x. runid x = str_int (year (nextrun sb))) (Run_objects d1) = [rn]"
    using Run_get_or_create_unique [OF a] .
  moreover have "run_id r = run_pk rn"
    using RunInfo_get_or_create_keys [OF b] c by simp
  ultimately show ?thesis by simp
qed

text \<open>Two subjects whose next run is in the same year get the same run.\<close>

lemma same_year_same_run:
  assumes "''Run'' \<in> set g" and "''RunInfo'' \<in> set g"
    and "new_runinfo_in g w s1 qs d = (Inr (r1, s1'), d1)"
    and "new_runinfo_in g w s2 qs d1 = (Inr (r2, s2'), d2)"
    and "year (nextrun s1) = year (nextrun s2)"
  shows "run_id r1 = run_id r2"
proof -
  obtain rn where rn: "filter (\<lambda>x. runid x = str_int (year (nextrun s1))) (Run_objects d1) = [rn]"
    "run_id r1 = run_pk rn"
    using new_runinfo_in_run [OF assms(1,2,3)] by blast
  have found: "Run_get_or_create (str_int (year (nextrun s2))) d1 = (Inr (rn, False), d1)"
    using Run_get_or_create_found rn(1) assms(5) by simp
  obtain rn' where rn': "filter (\<lambda>x. runid x = str_int (year (nextrun s2))) (Run_objects d2) = [rn']"
    "run_id r2 = run_pk rn'"
    using new_runinfo_in_run [OF assms(1,2,4)] by blast
  have "Run_objects d2 = Run_objects d1"
    using new_runinfo_in_Run_objects [OF assms(1,2), of w s2 qs d1] assms(4) found by simp
  then have "rn' = rn" using rn(1) rn'(1) assms(5) by simp
  then show ?thesis using rn(2) rn'(2) by simp
qed

lemma find_subject_saved:
  "find (\<lambda>x. subject_pk x = subject_pk s) (Subject_objects (save_subject s d)) = Some s"
proof -
  have a: "\<And>xs. subject_pk s \<in> set (map subject_pk xs) \<Longrightarrow>
     find (\<lambda>x. subject_pk x = subject_pk s)
       (map (\<lambda>x. if subject_pk x = subject_pk s then s else x) xs) = Some s"
    subgoal for xs by (induction xs) auto
    done
  have b: "\<And>xs. subject_pk s \<notin> set (map subject_pk xs) \<Longrightarrow>
     find (\<lambda>x. subject_pk x = subject_pk s) (xs @ [s]) = Some s"
    subgoal for xs by (induction xs) auto
    done
  show ?thesis
    by (simp add: save_subject_def a b del: set_map)
qed

text \<open>The next run, one year on, once the names are bound and no key is doubled.\<close>

lemma new_runinfo_in_nextrun:
  assumes "''Run'' \<in> set g" and "''RunInfo'' \<in> set g"
    and "valid_date (year (nextrun sb)) (month (nextrun sb)) (day (nextrun sb))"
    and "year (nextrun sb) < MAXYEAR"
    and "fst (new_runinfo_in g w sb qs d) \<noteq> Inl MultipleObjectsReturned"
  shows "\<exists>r d'. new_runinfo_in g w sb qs d =
            (Inr (r, sb\<lparr>nextrun :=
                 \<lparr>year = year (nextrun sb) + 1, month = month (nextrun sb),
                  day = (if month (nextrun sb) = 2 \<and> day (nextrun sb) = 29 then 28
                         else day (nextrun sb)),
                  hour = 0, minute = 0, second = 0, microsecond = 0\<rparr>\<rparr>), d')
          \<and> find (\<lambda>x. subject_pk x = subject_pk sb) (Subject_objects d') =
              Some (sb\<lparr>nextrun :=
                 \<lparr>year = year (nextrun sb) + 1, month = month (nextrun sb),
                  day = (if month (nextrun sb) = 2 \<and> day (nextrun sb) = 29 then 28
                         else day (nextrun sb)),
                  hour = 0, minute = 0, second = 0, microsecond = 0\<rparr>\<rparr>)"
proof -
  let ?sb = "sb\<lparr>nextrun :=
                 \<lparr>year = year (nextrun sb) + 1, month = month (nextrun sb),
                  day = (if month (nextrun sb) = 2 \<and> day (nextrun sb) = 29 then 28
                         else day (nextrun sb)),
                  hour = 0, minute = 0, second = 0, microsecond = 0\<rparr>\<rparr>"
  have n: "next_nextrun (nextrun sb) = Inr (nextrun ?sb)"
    using next_nextrun_valid [OF assms(3,4)] by simp
  have ra: "\<And>rid d. fst (Run_get_or_create rid d) = Inl e \<Longrightarrow> e = MultipleObjectsReturned" for e
    by (auto simp: Run_get_or_create_def Let_def split: list.splits)
  have rb: "\<And>rn s d. fst (RunInfo_get_or_create rn s d) = Inl e \<Longrightarrow> e = MultipleObjectsReturned"
    for e
    by (auto simp: RunInfo_get_or_create_def Let_def split: list.splits)
  obtain res1 d1 where r1: "Run_get_or_create (str_int (year (nextrun sb))) d = (res1, d1)"
    by (cases "Run_get_or_create (str_int (year (nextrun sb))) d")
  show ?thesis
  proof (cases res1)
    case (Inl e)
    then have "e = MultipleObjectsReturned" using ra [of _ _ e] r1
      by (metis fst_conv)
    then have False
      using assms(1,2,5) r1 Inl by (simp add: new_runinfo_in_def load_global_def Let_def)
    then show ?thesis ..
  next
    case (Inr p)
    obtain rn c where p: "p = (rn, c)" by (cases p)
    obtain res2 d2 where r2: "RunInfo_get_or_create rn sb d1 = (res2, d2)"
      by (cases "RunInfo_get_or_create rn sb d1")
    show ?thesis
    proof (cases res2)
      case (Inl e)
      then have "e = MultipleObjectsReturned" using rb [of _ _ _ e] r2
        by (metis fst_conv)
      then have False
        using assms(1,2,5) r1 r2 Inl Inr p
        by (simp add: new_runinfo_in_def load_global_def Let_def)
      then show ?thesis ..
    next
      case (Inr q)
      obtain r created where q: "q = (r, created)" by (cases q)
      show ?thesis
        using assms(1,2) r1 r2 \<open>res1 = Inr p\<close> p Inr q n find_subject_saved [of ?sb]
        by (simp add: new_runinfo_in_def load_global_def Let_def)
    qed
  qed
qed


text \<open>Saving an object over its own row keeps the keys of the table.\<close>

lemma save_runinfo_keys:
  assumes "r \<in> set (RunInfo_objects d)"
    and "distinct (map runinfo_pk (RunInfo_objects d))"
    and "runinfo_pk r2 = runinfo_pk r"
    and "subject_id r2 = subject_id r" and "run_id r2 = run_id r"
  shows "map runinfo_pk (RunInfo_objects (save_runinfo r2 d)) = map runinfo_pk (RunInfo_objects d)"
    and "map (\<lambda>x. (subject_id x, run_id x)) (RunInfo_objects (save_runinfo r2 d))
           = map (\<lambda>x. (subject_id x, run_id x)) (RunInfo_objects d)"
proof -
  have inj: "inj_on runinfo_pk (set (RunInfo_objects d))"
    using assms(2) by (simp add: distinct_map)
  have same: "x = r" if "x \<in> set (RunInfo_objects d)" "runinfo_pk x = runinfo_pk r2" for x
    using inj that assms(1,3) by (auto dest: inj_onD)
  have mem: "runinfo_pk r2 \<in> set (map runinfo_pk (RunInfo_objects d))"
    using assms(1,3) by force
  have eq: "RunInfo_objects (save_runinfo r2 d)
              = map (\<lambda>x. if runinfo_pk x = runinfo_pk r2 then r2 else x) (RunInfo_objects d)"
    using mem by (simp add: save_runinfo_def del: set_map)
  show "map runinfo_pk (RunInfo_objects (save_runinfo r2 d)) = map runinfo_pk (RunInfo_objects d)"
    unfolding eq by (simp add: comp_def cong: map_cong)
  show "map (\<lambda>x. (subject_id x, run_id x)) (RunInfo_objects (save_runinfo r2 d))
           = map (\<lambda>x. (subject_id x, run_id x)) (RunInfo_objects d)"
    unfolding eq using same assms(4,5) by (auto simp: comp_def)
qed

lemma RunInfo_get_or_create_distinct:
  assumes "distinct (map runinfo_pk (RunInfo_objects d))"
    and "distinct (map (\<lambda>x. (subject_id x, run_id x)) (RunInfo_objects d))"
  shows "distinct (map runinfo_pk (RunInfo_objects (snd (RunInfo_get_or_create rn sb d))))
       \<and> distinct (map (\<lambda>x. (subject_id x, run_id x))
             (RunInfo_objects (snd (RunInfo_get_or_create rn sb d))))"
proof (cases "filter (\<lambda>x. run_id x = run_pk rn \<and> subject_id x = subject_pk sb)
                (RunInfo_objects d)")
  case Nil
  then have none: "\<forall>x \<in> set (RunInfo_objects d).
      \<not> (run_id x = run_pk rn \<and> subject_id x = subject_pk sb)"
    by (simp add: filter_empty_conv)
  have fresh: "fresh_pk (map runinfo_pk (RunInfo_objects d)) \<notin> set (map runinfo_pk (RunInfo_objects d))"
    by (rule fresh_pk_new)
  show ?thesis
    using Nil assms none fresh
    by (auto simp: RunInfo_get_or_create_def Let_def RunInfo_new_def)
next
  case (Cons x xs)
  then show ?thesis
    using assms by (simp add: RunInfo_get_or_create_def split: list.splits)
qed

text \<open>
  The keys of the RunInfo table stay distinct, and no subject gets a second RunInfo
  for a run, whatever the call does.
\<close>

lemma new_runinfo_in_keeps_unique:
  assumes "distinct (map runinfo_pk (RunInfo_objects d))"
    and "distinct (map (\<lambda>x. (subject_id x, run_id x)) (RunInfo_objects d))"
  shows "distinct (map runinfo_pk (RunInfo_objects (snd (new_runinfo_in g w sb qs d))))
       \<and> distinct (map (\<lambda>x. (subject_id x, run_id x))
             (RunInfo_objects (snd (new_runinfo_in g w sb qs d))))"
proof (cases "''Run'' \<in> set g")
  case False
  then show ?thesis using assms by (simp add: new_runinfo_unbound)
next
  case run: True
  obtain res1 d1 where r1: "Run_get_or_create (str_int (year (nextrun sb))) d = (res1, d1)"
    by (cases "Run_get_or_create (str_int (year (nextrun sb))) d")
  have d1: "RunInfo_objects d1 = RunInfo_objects d"
    using Run_get_or_create_other_tables(1) [of "str_int (year (nextrun sb))" d] r1 by simp
  show ?thesis
  proof (cases res1)
    case (Inl e)
    then show ?thesis
      using run r1 d1 assms by (simp add: new_runinfo_in_def load_global_def Let_def)
  next
    case (Inr p)
    obtain rn c where p: "p = (rn, c)" by (cases p)
    show ?thesis
    proof (cases "''RunInfo'' \<in> set g")
      case False
      then show ?thesis
        using run r1 d1 assms Inr p by (simp add: new_runinfo_in_def load_global_def Let_def)
    next
      case info: True
      obtain res2 d2 where r2: "RunInfo_get_or_create rn sb d1 = (res2, d2)"
        by (cases "RunInfo_get_or_create rn sb d1")
      have u2: "distinct (map runinfo_pk (RunInfo_objects d2))"
        "distinct (map (\<lambda>x. (subject_id x, run_id x)) (RunInfo_objects d2))"
        using RunInfo_get_or_create_distinct [of d1 rn sb] assms d1 r2 by simp_all
      show ?thesis
      proof (cases res2)
        case (Inl e)
        then show ?thesis
          using run info r1 r2 u2 \<open>res1 = Inr p\<close> p
          by (simp add: new_runinfo_in_def load_global_def Let_def)
      next
        case (Inr q)
        obtain r created where q: "q = (r, created)" by (cases q)
        define r2' where "r2' =
          (if created then r\<lparr>random_code := new_random w sb, emailcount := 0\<rparr> else r)
            \<lparr>questionset_id := Some (questionset_pk qs)\<rparr>"
        have mem: "r \<in> set (RunInfo_objects d2)"
          using RunInfo_get_or_create_keys [of rn sb d1 r created d2] r2 Inr q by simp
        have k: "runinfo_pk r2' = runinfo_pk r" "subject_id r2' = subject_id r"
          "run_id r2' = run_id r"
          by (simp_all add: r2'_def)
        have u3: "distinct (map runinfo_pk (RunInfo_objects (save_runinfo r2' d2)))"
          "distinct (map (\<lambda>x. (subject_id x, run_id x)) (RunInfo_objects (save_runinfo r2' d2)))"
          using save_runinfo_keys [OF mem u2(1) k] u2 by simp_all
        have "snd (new_runinfo_in g w sb qs d) = save_runinfo r2' d2
            \<or> (\<exists>s. snd (new_runinfo_in g w sb qs d) = save_subject s (save_runinfo r2' d2))"
          using run info r1 r2 \<open>res1 = Inr p\<close> p Inr q
          by (auto simp: new_runinfo_in_def load_global_def Let_def r2'_def split: sum.splits)
        then show ?thesis using u3 by auto
      qed
    qed
  qed
qed

text \<open>A second call for the same subject and run year takes the row that is there.\<close>

lemma new_runinfo_in_reuses:
  assumes "''Run'' \<in> set g" and "''RunInfo'' \<in> set g"
    and "filter (\<lambda>x. runid x = str_int (year (nextrun sb))) (Run_objects d) = [rn]"
    and "filter (\<lambda>x. run_id x = run_pk rn \<and> subject_id x = subject_pk sb)
           (RunInfo_objects d) = [r0]"
  shows "RunInfo_objects (snd (new_runinfo_in g w sb qs d))
           = map (\<lambda>x. if runinfo_pk x = runinfo_pk r0
                       then r0\<lparr>questionset_id := Some (questionset_pk qs)\<rparr> else x)
               (RunInfo_objects d)"
    and "new_runinfo_in g w sb qs d = (Inr (r, sb'), d')
           \<Longrightarrow> r = r0\<lparr>questionset_id := Some (questionset_pk qs)\<rparr>"
proof -
  have a: "Run_get_or_create (str_int (year (nextrun sb))) d = (Inr (rn, False), d)"
    using Run_get_or_create_found [OF assms(3)] .
  have b: "RunInfo_get_or_create rn sb d = (Inr (r0, False), d)"
    using RunInfo_get_or_create_found [OF assms(4)] .
  have mem: "runinfo_pk r0 \<in> set (map runinfo_pk (RunInfo_objects d))"
    using filter_singletonD [OF assms(4)] by force
  have s: "RunInfo_objects (save_runinfo (r0\<lparr>questionset_id := Some (questionset_pk qs)\<rparr>) d)
      = map (\<lambda>x. if runinfo_pk x = runinfo_pk r0
                       then r0\<lparr>questionset_id := Some (questionset_pk qs)\<rparr> else x)
               (RunInfo_objects d)"
    using mem by (simp add: save_runinfo_def del: set_map)
  show "RunInfo_objects (snd (new_runinfo_in g w sb qs d))
           = map (\<lambda>x. if runinfo_pk x = runinfo_pk r0
                       then r0\<lparr>questionset_id := Some (questionset_pk qs)\<rparr> else x)
               (RunInfo_objects d)"
    using assms(1,2) a b s
    by (simp add: new_runinfo_in_def load_global_def Let_def split: sum.splits)
  show "new_runinfo_in g w sb qs d = (Inr (r, sb'), d')
           \<Longrightarrow> r = r0\<lparr>questionset_id := Some (questionset_pk qs)\<rparr>"
    using assms(1,2) a b
    by (auto simp: new_runinfo_in_def load_global_def Let_def split: sum.splits)
qed

text \<open>
  With \<^verbatim>\<open>Run\<close> added to the module's names, the loop of lines 135 and 136 creates
  the run of 2015 once for the two subjects due in that year, gives each subject a new
  RunInfo, and moves the leap-day subject to 2013-02-28.
\<close>

lemma with_Run_bound_example:
  "map nextrun (Subject_objects (snd (create_runinfos (''Run'' # module_globals) world0
       survey_qs [ann_due, bob_due, leap_due] (db_due [ann_due, bob_due, leap_due] [] []))))
     = [at_time 2016 3 1 0 0 0, at_time 2016 6 15 0 0 0, at_time 2013 2 28 0 0 0]
   \<and> Run_objects (snd (create_runinfos (''Run'' # module_globals) world0
       survey_qs [ann_due, bob_due, leap_due] (db_due [ann_due, bob_due, leap_due] [] [])))
     = [\<lparr>run_pk = 1, runid = ''2015''\<rparr>, \<lparr>run_pk = 2, runid = ''2012''\<rparr>]
   \<and> map (\<lambda>x. (subject_id x, run_id x, emailcount x, random_code x))
       (RunInfo_objects (snd (create_runinfos (''Run'' # module_globals) world0
       survey_qs [ann_due, bob_due, leap_due] (db_due [ann_due, bob_due, leap_due] [] []))))
     = [(1, 1, 0, ''1z9e107d''), (2, 1, 0, ''2z9e107d''), (3, 2, 0, ''3z9e107d'')]"
  by code_simp

section \<open>Creating the run information: the module as it is\<close>

text \<open>
  Claim C1: the run of a subject is got or created under the key \<^verbatim>\<open>str(nextrun.year)\<close>,
  so that subjects due in the same year share one run and no second run is made for a
  key. The lemmas \<open>same_year_same_run\<close> and \<open>new_runinfo_in_no_second_run\<close> show that
  lines 50 to 58 do this once \<^verbatim>\<open>Run\<close> is bound. In the module as it is, line 52 reads
  a name that line 17 does not import: every call raises \<^verbatim>\<open>NameError\<close> before a run
  is looked up. For two subjects due in 2015 the loop of line 135 stops at the first
  one, no run and no RunInfo exist afterwards, and the job ends with the exception.
\<close>

theorem run_never_obtained:
  "new_runinfo w sb qs d = (Inl (NameError ''Run''), d)
   \<and> create_runinfos module_globals world0 survey_qs [ann_due, bob_due]
        (db_due [ann_due, bob_due] [] [])
      = (Inl (NameError ''Run''), db_due [ann_due, bob_due] [] [])
   \<and> send_emails world0 settings0 None None (db_due [ann_due, bob_due] [] [])
      = (Inl (NameError ''Run''), db_due [ann_due, bob_due] [] [])"
proof -
  have a: "\<And>w sb qs d. new_runinfo_in module_globals w sb qs d = (Inl (NameError ''Run''), d)"
    using new_runinfo_unbound [OF Run_unbound] .
  have v: "viablesubjects world0 (db_due [ann_due, bob_due] [] []) = [ann_due, bob_due]"
    by (simp add: viablesubjects_def example_defs datetime_le_def)
  have r: "resolve module_globals settings0 None None (db_due [ann_due, bob_due] [] [])
      = Inr (survey, survey_qs)"
    by (simp add: resolve_def example_defs falsy_def load_global_def module_globals_def
        objects_get_def questionsets_of_def)
  show ?thesis
    using a v r
    by (simp add: new_runinfo_def send_emails_def send_emails_in_def load_global_def
        module_globals_def)
qed

text \<open>
  Claim C2: the call moves the subject's next run one year on, the leap day to
  February 28. The lemma \<open>new_runinfo_in_nextrun\<close> shows that lines 59 to 63 do this
  once \<^verbatim>\<open>Run\<close> is bound (for a next run before the year 9999, the last one that
  \<^verbatim>\<open>datetime\<close> has). In the module as it is, the call raises \<^verbatim>\<open>NameError\<close> at line 52
  and the subject is not saved: after the job, the subject due on 2012-02-29 and the
  one due on 2015-03-01 have the next run they had.
\<close>

theorem nextrun_never_advanced:
  "new_runinfo world0 leap_due survey_qs (db_due [leap_due] [] [])
     = (Inl (NameError ''Run''), db_due [leap_due] [] [])
   \<and> new_runinfo world0 ann_due survey_qs (db_due [ann_due] [] [])
     = (Inl (NameError ''Run''), db_due [ann_due] [] [])
   \<and> map nextrun (Subject_objects (snd (send_emails world0 settings0 None None
        (db_due [leap_due, ann_due] [] []))))
     = [at_time 2012 2 29 0 0 0, at_time 2015 3 1 0 0 0]"
proof -
  have a: "\<And>w sb qs d. new_runinfo_in module_globals w sb qs d = (Inl (NameError ''Run''), d)"
    using new_runinfo_unbound [OF Run_unbound] .
  have v: "viablesubjects world0 (db_due [leap_due, ann_due] [] []) = [leap_due, ann_due]"
    by (simp add: viablesubjects_def example_defs datetime_le_def)
  have r: "resolve module_globals settings0 None None (db_due [leap_due, ann_due] [] [])
      = Inr (survey, survey_qs)"
    by (simp add: resolve_def example_defs falsy_def load_global_def module_globals_def
        objects_get_def questionsets_of_def)
  have "send_emails world0 settings0 None None (db_due [leap_due, ann_due] [] [])
      = (Inl (NameError ''Run''), db_due [leap_due, ann_due] [] [])"
    using a v r
    by (simp add: send_emails_def send_emails_in_def load_global_def module_globals_def)
  then show ?thesis
    using a by (simp add: new_runinfo_def) (simp add: example_defs)
qed

text \<open>
  Claim C3: a second call for a subject and run year whose RunInfo exists makes no
  second row and returns the one that is there, with its \<open>emailcount\<close> and token. The
  lemmas \<open>new_runinfo_in_reuses\<close> and \<open>new_runinfo_in_keeps_unique\<close> show that lines
  53 to 58 do this once \<^verbatim>\<open>Run\<close> is bound. In the module as it is, the call raises
  \<^verbatim>\<open>NameError\<close> at line 52, also when the row of the subject and the run exists, and a
  second call does the same: no RunInfo is returned.
\<close>

theorem existing_runinfo_not_returned:
  "filter (\<lambda>x. run_id x = run_pk run2015 \<and> subject_id x = subject_pk ann_due)
     (RunInfo_objects (db_due [ann_due] [run2015] [ann_8days])) = [ann_8days]
   \<and> new_runinfo world0 ann_due survey_qs (db_due [ann_due] [run2015] [ann_8days])
     = (Inl (NameError ''Run''), db_due [ann_due] [run2015] [ann_8days])
   \<and> new_runinfo w sb qs (snd (new_runinfo w sb qs d)) = (Inl (NameError ''Run''), d)"
proof -
  have a: "\<And>w sb qs d. new_runinfo_in module_globals w sb qs d = (Inl (NameError ''Run''), d)"
    using new_runinfo_unbound [OF Run_unbound] .
  show ?thesis
    using a by (simp add: new_runinfo_def) (simp add: example_defs)
qed

end
